theory Spec2Isabelle
  imports Complex_Main "HOL-Library.Product_Lexorder"
begin

section \<open>Text\<close>

text \<open>
  A Python \<open>str\<close> is a sequence of Unicode code points, so text is a list of natural
  numbers and \<open>length\<close> is Python's \<open>len\<close>. Literals of the source are written
  \<open>u ''...''\<close> for their ASCII part, with the code point spelled out for every other
  character. The character classes below follow CPython on Basic Latin, Latin-1 Supplement and
  Cyrillic, the scripts the source and its gazetteer use, and on every white space character;
  a code point of another script is taken as a caseless symbol that is neither digit nor letter.
\<close>

type_synonym ustr = "nat list"

definition u :: "string \<Rightarrow> ustr" where
  "u s = map of_char s"

definition isspace :: "nat \<Rightarrow> bool" where
  "isspace c = ((9 \<le> c \<and> c \<le> 13) \<or> (28 \<le> c \<and> c \<le> 32) \<or> c = 133 \<or> c = 160 \<or> c = 5760
     \<or> (8192 \<le> c \<and> c \<le> 8202) \<or> c = 8232 \<or> c = 8233 \<or> c = 8239 \<or> c = 8287 \<or> c = 12288)"

text \<open>The class \<open>\d\<close> of the regular expressions, and what \<open>float\<close> reads as a digit.\<close>

definition isdigit :: "nat \<Rightarrow> bool" where
  "isdigit c = (48 \<le> c \<and> c \<le> 57)"

text \<open>\<open>str.isdigit\<close> of one character also accepts the superscript digits.\<close>

definition str_isdigit :: "nat \<Rightarrow> bool" where
  "str_isdigit c = (isdigit c \<or> c = 178 \<or> c = 179 \<or> c = 185)"

definition isupper :: "nat \<Rightarrow> bool" where
  "isupper c = ((65 \<le> c \<and> c \<le> 90) \<or> (192 \<le> c \<and> c \<le> 214) \<or> (216 \<le> c \<and> c \<le> 222)
     \<or> (1024 \<le> c \<and> c \<le> 1071))"

definition ascii_upper :: "nat \<Rightarrow> bool" where
  "ascii_upper c = (65 \<le> c \<and> c \<le> 90)"

definition ascii_alpha :: "nat \<Rightarrow> bool" where
  "ascii_alpha c = ((65 \<le> c \<and> c \<le> 90) \<or> (97 \<le> c \<and> c \<le> 122))"

definition lower_cp :: "nat \<Rightarrow> nat" where
  "lower_cp c = (if (65 \<le> c \<and> c \<le> 90) \<or> (192 \<le> c \<and> c \<le> 214) \<or> (216 \<le> c \<and> c \<le> 222)
       \<or> (1040 \<le> c \<and> c \<le> 1071) then c + 32
     else if 1024 \<le> c \<and> c \<le> 1039 then c + 80 else c)"

definition lower :: "ustr \<Rightarrow> ustr" where
  "lower s = map lower_cp s"

text \<open>The class \<open>\w\<close>: alphanumeric characters and the underscore.\<close>

definition isword :: "nat \<Rightarrow> bool" where
  "isword c = ((48 \<le> c \<and> c \<le> 57) \<or> (65 \<le> c \<and> c \<le> 90) \<or> c = 95 \<or> (97 \<le> c \<and> c \<le> 122)
     \<or> c = 170 \<or> c = 178 \<or> c = 179 \<or> c = 181 \<or> c = 185 \<or> c = 186 \<or> (188 \<le> c \<and> c \<le> 190)
     \<or> (192 \<le> c \<and> c \<le> 214) \<or> (216 \<le> c \<and> c \<le> 246) \<or> (248 \<le> c \<and> c \<le> 255)
     \<or> (1024 \<le> c \<and> c \<le> 1153) \<or> (1162 \<le> c \<and> c \<le> 1327))"

text \<open>\<open>\b\<close> between two neighbouring positions; outside the string counts as a non-word.\<close>

definition boundary :: "nat option \<Rightarrow> nat option \<Rightarrow> bool" where
  "boundary a b = ((case a of None \<Rightarrow> False | Some x \<Rightarrow> isword x)
                   \<noteq> (case b of None \<Rightarrow> False | Some y \<Rightarrow> isword y))"

definition head :: "ustr \<Rightarrow> nat option" where
  "head s = (case s of [] \<Rightarrow> None | c # _ \<Rightarrow> Some c)"

definition strip :: "ustr \<Rightarrow> ustr" where
  "strip s = rev (dropWhile isspace (rev (dropWhile isspace s)))"

text \<open>\<open>s.split()\<close>: the maximal runs of characters that are not white space.\<close>

fun split_acc :: "ustr \<Rightarrow> ustr \<Rightarrow> ustr list" where
  "split_acc w [] = (if w = [] then [] else [rev w])"
| "split_acc w (c # cs) =
     (if isspace c then (if w = [] then split_acc [] cs else rev w # split_acc [] cs)
      else split_acc (c # w) cs)"

definition split_ws :: "ustr \<Rightarrow> ustr list" where
  "split_ws s = split_acc [] s"

text \<open>\<open>sep.join(xs)\<close>.\<close>

fun join :: "ustr \<Rightarrow> ustr list \<Rightarrow> ustr" where
  "join sep [] = []"
| "join sep [x] = x"
| "join sep (x # y # ys) = x @ sep @ join sep (y # ys)"

fun startswith :: "ustr \<Rightarrow> ustr \<Rightarrow> bool" where
  "startswith s [] = True"
| "startswith [] (p # ps) = False"
| "startswith (c # cs) (p # ps) = (c = p \<and> startswith cs ps)"

text \<open>\<open>s.find(p)\<close>, with \<open>None\<close> for Python's \<open>-1\<close>, and \<open>p in s\<close>.\<close>

fun py_find :: "ustr \<Rightarrow> ustr \<Rightarrow> nat option" where
  "py_find [] p = (if p = [] then Some 0 else None)"
| "py_find (c # cs) p =
     (if startswith (c # cs) p then Some 0 else map_option Suc (py_find cs p))"

definition isin :: "ustr \<Rightarrow> ustr \<Rightarrow> bool" where
  "isin p s = (py_find s p \<noteq> None)"

text \<open>\<open>s.replace(p, '', 1)\<close>: the first occurrence of \<open>p\<close> is removed.\<close>

fun replace_first :: "ustr \<Rightarrow> ustr \<Rightarrow> ustr" where
  "replace_first [] p = []"
| "replace_first (c # cs) p =
     (if startswith (c # cs) p then drop (length p) (c # cs) else c # replace_first cs p)"

text \<open>
  \<open>s.replace(p, '')\<close> and \<open>re.sub\<close> of a literal \<open>p\<close> by the empty string, for a non-empty
  \<open>p\<close>: every occurrence is removed, leftmost first and without overlap. The counter is the
  number of characters of the current occurrence still to be dropped.
\<close>

fun remove_all_from :: "nat \<Rightarrow> ustr \<Rightarrow> ustr \<Rightarrow> ustr" where
  "remove_all_from k p [] = []"
| "remove_all_from k p (c # cs) =
     (if 0 < k then remove_all_from (k - 1) p cs
      else if p \<noteq> [] \<and> startswith (c # cs) p then remove_all_from (length p - 1) p cs
      else c # remove_all_from 0 p cs)"

definition remove_all :: "ustr \<Rightarrow> ustr \<Rightarrow> ustr" where
  "remove_all p s = remove_all_from 0 p s"

text \<open>\<open>re.sub(r'\s+', ' ', s)\<close>: every run of white space becomes one space.\<close>

fun collapse_from :: "bool \<Rightarrow> ustr \<Rightarrow> ustr" where
  "collapse_from inrun [] = []"
| "collapse_from inrun (c # cs) =
     (if isspace c then (if inrun then collapse_from True cs else 32 # collapse_from True cs)
      else c # collapse_from False cs)"

definition collapse_ws :: "ustr \<Rightarrow> ustr" where
  "collapse_ws s = collapse_from False s"

section \<open>Floating-point numbers\<close>

text \<open>
  A Python \<open>float\<close> is a binary64 number. \<open>Fin m e\<close> is the finite number \<open>m * 2^e\<close>,
  kept in lowest terms: \<open>m\<close> is odd, or \<open>m\<close> and \<open>e\<close> are both zero. Negative zero is not
  told apart from zero, which no comparison of the source does either.
\<close>

datatype pyfloat = Fin int int | PInf | NInf | NaN

function reduce :: "int \<Rightarrow> int \<Rightarrow> pyfloat" where
  "reduce m e = (if m = 0 then Fin 0 0 else if even m then reduce (m div 2) (e + 1) else Fin m e)"
  by pat_completeness auto

termination
  by (relation "measure (\<lambda>(m, e). nat \<bar>m\<bar>)") auto

declare reduce.simps [simp del]

text \<open>An integer constant of the source, such as \<open>1000\<close> or \<open>50.0\<close>.\<close>

definition fint :: "int \<Rightarrow> pyfloat" where
  "fint n = reduce n 0"

fun nbits :: "nat \<Rightarrow> nat" where
  "nbits n = (if n = 0 then 0 else Suc (nbits (n div 2)))"

declare nbits.simps [simp del]

text \<open>The integer nearest to \<open>n / d\<close>, a tie going to the even one.\<close>

definition round_half_even :: "nat \<Rightarrow> nat \<Rightarrow> nat" where
  "round_half_even n d =
     (let q = n div d; r = n mod d
      in if 2 * r < d then q else if d < 2 * r then q + 1 else if even q then q else q + 1)"

text \<open>
  The binary64 number nearest to \<open>a / b\<close>, for \<open>0 < b\<close>: \<open>e\<close> is the binary exponent of
  the quotient, \<open>s\<close> the exponent of its last significand bit (held at \<open>-1074\<close> for
  subnormal numbers), and a result of \<open>2^1024\<close> or more overflows to infinity.
\<close>

definition round_double :: "nat \<Rightarrow> nat \<Rightarrow> pyfloat" where
  "round_double a b =
     (if a = 0 then Fin 0 0
      else let e0 = int (nbits a) - int (nbits b);
               e = (if (if 0 \<le> e0 then b * 2 ^ nat e0 \<le> a else b \<le> a * 2 ^ nat (- e0))
                    then e0 else e0 - 1);
               s = max e (- 1022) - 52;
               m = (if 0 \<le> s then round_half_even a (b * 2 ^ nat s)
                    else round_half_even (a * 2 ^ nat (- s)) b)
           in if 971 < s \<or> (s = 971 \<and> 2 ^ 53 \<le> m) then PInf else reduce (int m) s)"

definition fneg :: "pyfloat \<Rightarrow> pyfloat" where
  "fneg x = (case x of Fin m e \<Rightarrow> Fin (- m) e | PInf \<Rightarrow> NInf | NInf \<Rightarrow> PInf | NaN \<Rightarrow> NaN)"

text \<open>The float that a decimal literal \<open>n / 10^k\<close> denotes, such as \<open>0.01\<close>.\<close>

definition fdec :: "int \<Rightarrow> nat \<Rightarrow> pyfloat" where
  "fdec n k = (if n < 0 then fneg (round_double (nat (- n)) (10 ^ k)) else round_double (nat n) (10 ^ k))"

text \<open>\<open>m * 2^e\<close> counted in units of \<open>2^e0\<close>, for \<open>e0 \<le> e\<close>.\<close>

definition scaled :: "int \<Rightarrow> int \<Rightarrow> int \<Rightarrow> int" where
  "scaled m e e0 = m * 2 ^ nat (e - e0)"

text \<open>The binary64 number nearest to \<open>n * 2^e\<close>.\<close>

definition round_scaled :: "int \<Rightarrow> int \<Rightarrow> pyfloat" where
  "round_scaled n e =
     (let v = (if 0 \<le> e then round_double (nat \<bar>n\<bar> * 2 ^ nat e) 1
               else round_double (nat \<bar>n\<bar>) (2 ^ nat (- e)))
      in if n < 0 then fneg v else v)"

fun fsub :: "pyfloat \<Rightarrow> pyfloat \<Rightarrow> pyfloat" where
  "fsub (Fin m1 e1) (Fin m2 e2) =
     round_scaled (scaled m1 e1 (min e1 e2) - scaled m2 e2 (min e1 e2)) (min e1 e2)"
| "fsub (Fin m e) PInf = NInf"
| "fsub (Fin m e) NInf = PInf"
| "fsub PInf (Fin m e) = PInf"
| "fsub PInf NInf = PInf"
| "fsub NInf (Fin m e) = NInf"
| "fsub NInf PInf = NInf"
| "fsub x y = NaN"

definition fabs :: "pyfloat \<Rightarrow> pyfloat" where
  "fabs x = (case x of Fin m e \<Rightarrow> Fin \<bar>m\<bar> e | PInf \<Rightarrow> PInf | NInf \<Rightarrow> PInf | NaN \<Rightarrow> NaN)"

fun flt :: "pyfloat \<Rightarrow> pyfloat \<Rightarrow> bool" where
  "flt (Fin m1 e1) (Fin m2 e2) = (scaled m1 e1 (min e1 e2) < scaled m2 e2 (min e1 e2))"
| "flt (Fin m e) PInf = True"
| "flt NInf (Fin m e) = True"
| "flt NInf PInf = True"
| "flt x y = False"

fun feq :: "pyfloat \<Rightarrow> pyfloat \<Rightarrow> bool" where
  "feq NaN y = False"
| "feq x NaN = False"
| "feq x y = (x = y)"

definition fle :: "pyfloat \<Rightarrow> pyfloat \<Rightarrow> bool" where
  "fle x y = (flt x y \<or> feq x y)"

text \<open>
  \<open>float(s)\<close> for a string of the shapes the source passes to it, an optional minus sign,
  digits, and optionally a point and further digits: the number nearest to the decimal value.
\<close>

fun digits_val :: "nat \<Rightarrow> ustr \<Rightarrow> nat" where
  "digits_val acc [] = acc"
| "digits_val acc (c # cs) = digits_val (10 * acc + (c - 48)) cs"

definition float_of :: "ustr \<Rightarrow> pyfloat" where
  "float_of s =
     (let neg = (head s = Some 45);
          t = (if neg then tl s else s);
          ip = takeWhile isdigit t;
          fp = takeWhile isdigit (drop 1 (dropWhile isdigit t));
          v = round_double (digits_val 0 (ip @ fp)) (10 ^ length fp)
      in if neg then fneg v else v)"

text \<open>The truth value of an optional number: \<open>None\<close> and zero are false.\<close>

definition truthy :: "pyfloat option \<Rightarrow> bool" where
  "truthy x = (case x of None \<Rightarrow> False | Some f \<Rightarrow> f \<noteq> Fin 0 0)"

subsection \<open>\<open>str\<close> of a float\<close>

text \<open>
  \<open>str(x)\<close> is the shortest decimal string that reads back as \<open>x\<close>, the one nearest to
  \<open>x\<close> where several of that length do; it is written with an exponent when the decimal
  point would stand more than 16 places right or more than 3 places left of the first digit.
\<close>

fun ndigits :: "nat \<Rightarrow> nat" where
  "ndigits n = (if n < 10 then 1 else Suc (ndigits (n div 10)))"

declare ndigits.simps [simp del]

fun digits_of :: "nat \<Rightarrow> ustr" where
  "digits_of n = (if n < 10 then [48 + n] else digits_of (n div 10) @ [48 + n mod 10])"

declare digits_of.simps [simp del]

fun first_some :: "('a \<Rightarrow> 'b option) \<Rightarrow> 'a list \<Rightarrow> 'b option" where
  "first_some f [] = None"
| "first_some f (x # xs) = (case f x of Some y \<Rightarrow> Some y | None \<Rightarrow> first_some f xs)"

text \<open>The decimal exponent \<open>k\<close> of \<open>a / b\<close>: \<open>10^k \<le> a / b < 10^(k+1)\<close>.\<close>

definition dec_exponent :: "nat \<Rightarrow> nat \<Rightarrow> int" where
  "dec_exponent a b =
     (if b \<le> a then int (ndigits (a div b)) - 1 else - int (ndigits ((b + a - 1) div a - 1)))"

definition dec_value :: "nat \<Rightarrow> int \<Rightarrow> pyfloat" where
  "dec_value m p = (if 0 \<le> p then round_double (m * 10 ^ nat p) 1 else round_double m (10 ^ nat (- p)))"

text \<open>
  The decimal \<open>m * 10^p\<close> of \<open>n\<close> significant digits that reads back as the float \<open>x\<close>,
  whose value is \<open>a / b\<close>, if there is one: only the two decimals around \<open>a / b\<close> can.
\<close>

definition repr_candidate :: "pyfloat \<Rightarrow> nat \<Rightarrow> nat \<Rightarrow> nat \<Rightarrow> (nat \<times> int) option" where
  "repr_candidate x a b n =
     (let p = dec_exponent a b - int n + 1;
          num = (if 0 \<le> p then a else a * 10 ^ nat (- p));
          den = (if 0 \<le> p then b * 10 ^ nat p else b);
          lo = num div den;
          r = num mod den;
          ok_lo = (dec_value lo p = x);
          ok_hi = (dec_value (lo + 1) p = x)
      in if ok_lo \<and> ok_hi
         then (if 2 * r < den \<or> (2 * r = den \<and> even lo) then Some (lo, p) else Some (lo + 1, p))
         else if ok_lo then Some (lo, p)
         else if ok_hi then Some (lo + 1, p)
         else None)"

definition repr_format :: "ustr \<Rightarrow> int \<Rightarrow> ustr" where
  "repr_format ds decpt =
     (if decpt \<le> - 4 \<or> 16 < decpt
      then take 1 ds @ (if 1 < length ds then 46 # drop 1 ds else []) @ [101]
           @ (if 0 \<le> decpt - 1 then [43] else [45])
           @ (if \<bar>decpt - 1\<bar> < 10 then [48] else []) @ digits_of (nat \<bar>decpt - 1\<bar>)
      else if decpt \<le> 0 then [48, 46] @ replicate (nat (- decpt)) 48 @ ds
      else if int (length ds) \<le> decpt
      then ds @ replicate (nat decpt - length ds) 48 @ [46, 48]
      else take (nat decpt) ds @ [46] @ drop (nat decpt) ds)"

text \<open>\<open>str\<close> of the positive float \<open>x\<close> of value \<open>a / b\<close>; 17 digits always suffice.\<close>

definition repr_pos :: "pyfloat \<Rightarrow> nat \<Rightarrow> nat \<Rightarrow> ustr" where
  "repr_pos x a b =
     (case first_some (repr_candidate x a b) [1 ..< 18] of
        None \<Rightarrow> []
      | Some (m, p) \<Rightarrow>
          (let ds = digits_of m; sig = rev (dropWhile (\<lambda>c. c = 48) (rev ds))
           in repr_format sig (int (length ds) + p)))"

definition float_str :: "pyfloat \<Rightarrow> ustr" where
  "float_str x =
     (case x of
        NaN \<Rightarrow> u ''nan''
      | PInf \<Rightarrow> u ''inf''
      | NInf \<Rightarrow> u ''-inf''
      | Fin m e \<Rightarrow>
          (let a = (if 0 \<le> e then nat \<bar>m\<bar> * 2 ^ nat e else nat \<bar>m\<bar>);
               b = (if 0 \<le> e then 1 else 2 ^ nat (- e))
           in if m = 0 then u ''0.0''
              else if m < 0 then 45 # repr_pos (fneg x) a b
              else repr_pos x a b))"

section \<open>The regular expressions of the source\<close>

text \<open>
  Each pattern is a scanner over the text that returns what the source reads from the match.
  \<open>re.findall(r'\d+\.\d+', s)\<close>: a match is a maximal run of digits, a point, and the maximal
  run of digits after it; a run of digits that no point and digit follow holds no match.
\<close>

datatype dstate = Idle | IntPart ustr | Dot ustr | Frac ustr

fun scan_decimal :: "dstate \<Rightarrow> ustr \<Rightarrow> ustr list" where
  "scan_decimal st [] = (case st of Frac acc \<Rightarrow> [rev acc] | _ \<Rightarrow> [])"
| "scan_decimal st (c # cs) =
     (case st of
        Idle \<Rightarrow> scan_decimal (if isdigit c then IntPart [c] else Idle) cs
      | IntPart acc \<Rightarrow>
          scan_decimal (if isdigit c then IntPart (c # acc) else if c = 46 then Dot acc else Idle) cs
      | Dot acc \<Rightarrow> scan_decimal (if isdigit c then Frac (c # 46 # acc) else Idle) cs
      | Frac acc \<Rightarrow>
          (if isdigit c then scan_decimal (Frac (c # acc)) cs
           else rev acc # scan_decimal Idle cs))"

definition findall_decimal :: "ustr \<Rightarrow> ustr list" where
  "findall_decimal s = scan_decimal Idle s"

text \<open>The first of the three bullet glyphs (U+25CF, U+25CB, U+F35D): \<open>re.search\<close> of their character class.\<close>

definition is_simbolo :: "nat \<Rightarrow> bool" where
  "is_simbolo c = (c = 9679 \<or> c = 9675 \<or> c = 62301)"

fun search_simbolo :: "ustr \<Rightarrow> nat option" where
  "search_simbolo [] = None"
| "search_simbolo (c # cs) = (if is_simbolo c then Some 0 else map_option Suc (search_simbolo cs))"

text \<open>\<open>re.search(r'(USD|BRL)', s)\<close>: the index of the first currency token.\<close>

definition moeda_at :: "ustr \<Rightarrow> bool" where
  "moeda_at s = (startswith s (u ''USD'') \<or> startswith s (u ''BRL''))"

fun search_moeda :: "ustr \<Rightarrow> nat option" where
  "search_moeda [] = None"
| "search_moeda (c # cs) = (if moeda_at (c # cs) then Some 0 else map_option Suc (search_moeda cs))"

text \<open>
  \<open>(\d+\.?\d*)\s+(USD|BRL)\<close> at the head of the text: group 1 of the match. The runs of digits
  and of white space are maximal in every match, so no backtracking is involved.
\<close>

definition stake_at :: "ustr \<Rightarrow> ustr option" where
  "stake_at s =
     (let d1 = takeWhile isdigit s;
          r1 = dropWhile isdigit s;
          dot = (head r1 = Some 46);
          r2 = (if dot then tl r1 else r1);
          d2 = takeWhile isdigit r2;
          r3 = dropWhile isdigit r2
      in if d1 \<noteq> [] \<and> r3 \<noteq> [] \<and> isspace (hd r3) \<and> moeda_at (dropWhile isspace r3)
         then Some (d1 @ (if dot then [46] else []) @ d2) else None)"

text \<open>The first element of \<open>re.findall(r'(\d+\.?\d*)\s+(USD|BRL)', s)\<close>, if any.\<close>

fun first_stake :: "ustr \<Rightarrow> ustr option" where
  "first_stake [] = None"
| "first_stake (c # cs) =
     (case stake_at (c # cs) of Some g \<Rightarrow> Some g | None \<Rightarrow> first_stake cs)"

text \<open>
  The pattern that \<open>str(stake).replace('.', r'\.')\<close> denotes. The string holds digits, a
  point, and for a large or small stake an exponent \<open>e+16\<close> or \<open>e-05\<close>, or it is \<open>inf\<close>. All
  of these match themselves except the plus sign, which makes the \<open>e\<close> before it a repetition.
\<close>

datatype atom = Lit nat | Plus nat

fun stake_regex :: "ustr \<Rightarrow> atom list" where
  "stake_regex [] = []"
| "stake_regex [c] = [Lit c]"
| "stake_regex (c # d # cs) = (if d = 43 then Plus c # stake_regex cs else Lit c # stake_regex (d # cs))"

text \<open>The text after a match at the head. What follows a repetition is a digit, never the repeated letter, so the longest repetition is the only one to try.\<close>

fun match_atoms :: "atom list \<Rightarrow> ustr \<Rightarrow> ustr option" where
  "match_atoms [] s = Some s"
| "match_atoms (a # as) [] = None"
| "match_atoms (Lit c # as) (x # xs) = (if x = c then match_atoms as xs else None)"
| "match_atoms (Plus c # as) (x # xs) =
     (if x = c then match_atoms as (dropWhile (\<lambda>y. y = c) xs) else None)"

text \<open>\<open>texto[re.search(pattern, texto).end():]\<close>, when the pattern is found.\<close>

fun after_search :: "atom list \<Rightarrow> ustr \<Rightarrow> ustr option" where
  "after_search as [] = match_atoms as []"
| "after_search as (c # cs) =
     (case match_atoms as (c # cs) of Some r \<Rightarrow> Some r | None \<Rightarrow> after_search as cs)"

text \<open>\<open>re.match(r'^-?\d+\.?\d*$', palavra)\<close>; the dollar also matches before a final newline.\<close>

definition is_numero :: "ustr \<Rightarrow> bool" where
  "is_numero s =
     (let t = (if head s = Some 45 then tl s else s);
          r1 = dropWhile isdigit t;
          r2 = (if head r1 = Some 46 then tl r1 else r1);
          r3 = dropWhile isdigit r2
      in takeWhile isdigit t \<noteq> [] \<and> (r3 = [] \<or> r3 = [10]))"

text \<open>
  \<open>re.sub\<close> of a hyphen or en dash (U+2013) with \<open>\s*$\<close> after it: the text is cut at the
  first dash that only white space follows.
\<close>

definition is_dash :: "nat \<Rightarrow> bool" where
  "is_dash c = (c = 45 \<or> c = 8211)"

fun cut_final_dash :: "ustr \<Rightarrow> ustr" where
  "cut_final_dash [] = []"
| "cut_final_dash (c # cs) =
     (if is_dash c \<and> list_all isspace cs then [] else c # cut_final_dash cs)"

text \<open>
  \<open>re.sub(r'\s*\([A-Z]{2}\)\s*', '', s)\<close>: every two-letter code in parentheses goes, with
  the white space around it. The counter is the number of characters of the current match still
  to be dropped.
\<close>

definition codigo_at :: "ustr \<Rightarrow> nat option" where
  "codigo_at s =
     (let w1 = takeWhile isspace s; r = dropWhile isspace s
      in case r of
           a # b # c # d # rest \<Rightarrow>
             (if a = 40 \<and> ascii_upper b \<and> ascii_upper c \<and> d = 41
              then Some (length w1 + 4 + length (takeWhile isspace rest)) else None)
         | _ \<Rightarrow> None)"

fun sub_codigo_from :: "nat \<Rightarrow> ustr \<Rightarrow> ustr" where
  "sub_codigo_from k [] = []"
| "sub_codigo_from k (c # cs) =
     (if 0 < k then sub_codigo_from (k - 1) cs
      else case codigo_at (c # cs) of
             Some n \<Rightarrow> sub_codigo_from (n - 1) cs
           | None \<Rightarrow> c # sub_codigo_from 0 cs)"

definition sub_codigo :: "ustr \<Rightarrow> ustr" where
  "sub_codigo s = sub_codigo_from 0 s"

text \<open>
  \<open>re.sub(r'\b' + re.escape(w) + r'\b', '', s, flags=re.IGNORECASE)\<close>: every occurrence of
  \<open>w\<close>, in any letter case, that stands between two word boundaries is removed. An empty \<open>w\<close>
  only matches the empty string, and the text stays as it is.
\<close>

fun imatch :: "ustr \<Rightarrow> ustr \<Rightarrow> bool" where
  "imatch s [] = True"
| "imatch [] (p # ps) = False"
| "imatch (c # cs) (p # ps) = (lower_cp c = lower_cp p \<and> imatch cs ps)"

definition word_at :: "nat option \<Rightarrow> ustr \<Rightarrow> ustr \<Rightarrow> bool" where
  "word_at prev w s =
     (w \<noteq> [] \<and> imatch s w \<and> boundary prev (head s)
      \<and> boundary (Some (s ! (length w - 1))) (head (drop (length w) s)))"

fun sub_word_from :: "nat \<Rightarrow> nat option \<Rightarrow> ustr \<Rightarrow> ustr \<Rightarrow> ustr" where
  "sub_word_from k prev w [] = []"
| "sub_word_from k prev w (c # cs) =
     (if 0 < k then sub_word_from (k - 1) (Some c) w cs
      else if word_at prev w (c # cs) then sub_word_from (length w - 1) (Some c) w cs
      else c # sub_word_from 0 (Some c) w cs)"

definition sub_word :: "ustr \<Rightarrow> ustr \<Rightarrow> ustr" where
  "sub_word w s = sub_word_from 0 None w s"

section \<open>The field extractor\<close>

text \<open>
  One leg of a surebet. In the record of a document every field starts as \<open>None\<close>; the
  field extractor always fills in the house.
\<close>

record bet =
  bet_house :: "ustr option"
  bet_odd :: "pyfloat option"
  bet_type :: "ustr option"
  bet_stake :: "pyfloat option"
  bet_profit :: "pyfloat option"

subsection \<open>Split at the bullet or the currency\<close>

definition parte_antes_simbolo :: "ustr \<Rightarrow> ustr" where
  "parte_antes_simbolo texto_aposta =
     (case search_simbolo texto_aposta of
        Some i \<Rightarrow> strip (take i texto_aposta)
      | None \<Rightarrow>
          (case search_moeda texto_aposta of
             Some j \<Rightarrow> strip (take j texto_aposta)
           | None \<Rightarrow> texto_aposta))"

definition parte_depois_simbolo :: "ustr \<Rightarrow> ustr" where
  "parte_depois_simbolo texto_aposta =
     (case search_simbolo texto_aposta of
        Some i \<Rightarrow> strip (drop (Suc i) texto_aposta)
      | None \<Rightarrow>
          (case search_moeda texto_aposta of
             Some j \<Rightarrow> strip (drop j texto_aposta)
           | None \<Rightarrow> []))"

subsection \<open>Odd\<close>

text \<open>The loop over \<open>reversed(numeros_antes)\<close>, which breaks at the first number in range.\<close>

fun odd_loop :: "ustr list \<Rightarrow> pyfloat option" where
  "odd_loop [] = None"
| "odd_loop (num_str # rest) =
     (let num = float_of num_str
      in if fle (fint 1) num \<and> fle num (fint 50) then Some num else odd_loop rest)"

definition extrair_odd :: "ustr \<Rightarrow> pyfloat option" where
  "extrair_odd texto_aposta =
     (let numeros_antes = findall_decimal (parte_antes_simbolo texto_aposta)
      in if numeros_antes = [] then None
         else let oddv = odd_loop (rev numeros_antes)
              in if \<not> truthy oddv then Some (float_of (last numeros_antes)) else oddv)"

subsection \<open>Stake and profit\<close>

definition extrair_stake :: "ustr \<Rightarrow> pyfloat option" where
  "extrair_stake texto_aposta = map_option float_of (first_stake texto_aposta)"

text \<open>The last decimal number after the place where the text of the stake is found again.\<close>

definition profit_apos_stake :: "ustr \<Rightarrow> pyfloat option \<Rightarrow> pyfloat option" where
  "profit_apos_stake texto_aposta stake =
     (case stake of
        None \<Rightarrow> None
      | Some st \<Rightarrow>
          if st = Fin 0 0 then None
          else (case after_search (stake_regex (float_str st)) texto_aposta of
                  None \<Rightarrow> None
                | Some texto_pos_stake \<Rightarrow>
                    (let numeros_pos_stake = findall_decimal texto_pos_stake
                     in if numeros_pos_stake = [] then None
                        else Some (float_of (last numeros_pos_stake)))))"

text \<open>\<open>num != x\<close> for an optional \<open>x\<close>: a number always differs from \<open>None\<close>.\<close>

definition differs :: "pyfloat \<Rightarrow> pyfloat option \<Rightarrow> bool" where
  "differs num x = (case x of None \<Rightarrow> True | Some y \<Rightarrow> \<not> feq num y)"

text \<open>The fallback loop over \<open>reversed(todos_numeros)\<close>.\<close>

fun profit_fallback :: "pyfloat option \<Rightarrow> pyfloat option \<Rightarrow> ustr list \<Rightarrow> pyfloat option" where
  "profit_fallback stake oddv [] = None"
| "profit_fallback stake oddv (num_str # rest) =
     (let num = float_of num_str
      in if differs num stake \<and> differs num oddv \<and> flt num (fint 1000) then Some num
         else profit_fallback stake oddv rest)"

definition extrair_profit :: "ustr \<Rightarrow> pyfloat option \<Rightarrow> pyfloat option \<Rightarrow> pyfloat option" where
  "extrair_profit texto_aposta stake oddv =
     (let todos_numeros = findall_decimal texto_aposta;
          profit = profit_apos_stake texto_aposta stake
      in if \<not> truthy profit
         then (case profit_fallback stake oddv (rev todos_numeros) of
                 Some num \<Rightarrow> Some num
               | None \<Rightarrow> profit)
         else profit)"

subsection \<open>Bet type\<close>

definition palavras_chave_tipo :: "ustr list" where
  "palavras_chave_tipo =
     [u ''acima'', u ''abaixo'', u ''total'', u ''over'', u ''under'', u ''mais'', u ''menos'',
      u ''primeiro'', u ''segundo'', u ''tempo'', u ''extra'', [49, 186], [50, 186]]"

definition palavra_anterior_eh_chave :: "ustr option \<Rightarrow> bool" where
  "palavra_anterior_eh_chave anterior =
     (case anterior of
        None \<Rightarrow> False
      | Some a \<Rightarrow>
          (let palavra_anterior_lower = strip (remove_all [8804] (remove_all [8805] (lower a)))
           in list_ex (\<lambda>chave. isin chave palavra_anterior_lower) palavras_chave_tipo))"

text \<open>\<open>x and abs(num - x) < 0.01\<close>.\<close>

definition perto :: "pyfloat \<Rightarrow> pyfloat option \<Rightarrow> bool" where
  "perto num x =
     (case x of
        None \<Rightarrow> False
      | Some v \<Rightarrow> v \<noteq> Fin 0 0 \<and> flt (fabs (fsub num v)) (fdec 1 2))"

text \<open>The loop over \<open>palavras\<close>; \<open>anterior\<close> is \<open>palavras[i-1]\<close>, kept or not.\<close>

fun filtrar_palavras ::
  "pyfloat option \<Rightarrow> pyfloat option \<Rightarrow> pyfloat option \<Rightarrow> ustr option \<Rightarrow> ustr list \<Rightarrow> ustr list" where
  "filtrar_palavras oddv stake profit anterior [] = []"
| "filtrar_palavras oddv stake profit anterior (palavra # resto) =
     (let seguintes = filtrar_palavras oddv stake profit (Some palavra) resto
      in if palavra = u ''USD'' \<or> palavra = u ''BRL'' then seguintes
         else if is_numero palavra
         then (let num = float_of palavra
               in if palavra_anterior_eh_chave anterior then palavra # seguintes
                  else if perto num oddv then seguintes
                  else if perto num stake then seguintes
                  else if perto num profit then seguintes
                  else if flt num (fint 0) then seguintes
                  else palavra # seguintes)
         else palavra # seguintes)"

definition limpar_tipo :: "ustr \<Rightarrow> ustr" where
  "limpar_tipo tipo_aposta =
     (let t1 = filter (\<lambda>c. c \<noteq> 9679 \<and> c \<noteq> 9675) tipo_aposta;
          t2 = filter (\<lambda>c. c \<noteq> 62301) t1;
          t3 = filter (\<lambda>c. c \<noteq> 9002) t2;
          t4 = strip (collapse_ws t3)
      in strip (cut_final_dash t4))"

definition casas_conhecidas :: "(ustr \<times> ustr list) list" where
  "casas_conhecidas =
     [(u ''estrela'', [u ''EstrelaBet'', u ''Estrela'']),
      (u ''pinnacle'', [u ''Pinnacle'']),
      (u ''marjo'', [u ''MarjoSports'', u ''Marjo'', u ''Sports'']),
      (u ''super'', [u ''SuperBet'', u ''Super'']),
      (u ''stake'', [u ''Stake'']),
      (u ''kto'', [u ''KTO'']),
      (u ''blaze'', [u ''Blaze'']),
      (u ''multibet'', [u ''MultiBet'', u ''Multi'']),
      (u ''bravo'', [u ''BravoBet'', u ''Bravo'']),
      (u ''betfast'', [u ''Betfast'']),
      (u ''betano'', [u ''Betano''])]"

definition remover_casa :: "ustr \<Rightarrow> ustr \<Rightarrow> ustr" where
  "remover_casa casa_aposta tipo_aposta =
     (let casa_sem_parenteses = strip (sub_codigo casa_aposta);
          t1 = sub_word casa_sem_parenteses tipo_aposta;
          casa_lower = lower casa_sem_parenteses;
          t2 = (case find (\<lambda>entrada. isin (fst entrada) casa_lower) casas_conhecidas of
                  Some entrada \<Rightarrow> foldl (\<lambda>t palavra. sub_word palavra t) t1 (snd entrada)
                | None \<Rightarrow> t1)
      in strip (collapse_ws t2))"

definition extrair_tipo ::
  "ustr \<Rightarrow> ustr \<Rightarrow> pyfloat option \<Rightarrow> pyfloat option \<Rightarrow> pyfloat option \<Rightarrow> ustr option" where
  "extrair_tipo texto_aposta casa_aposta oddv stake profit =
     (let tipo_completo = strip (remove_all (u ''(BR)'') (strip (replace_first texto_aposta casa_aposta)));
          palavras_filtradas = filtrar_palavras oddv stake profit None (split_ws tipo_completo);
          tipo_aposta = remover_casa casa_aposta (limpar_tipo (join [32] palavras_filtradas))
      in if tipo_aposta = [] then None else Some tipo_aposta)"

definition processar_aposta_completa :: "ustr \<Rightarrow> ustr \<Rightarrow> bet" where
  "processar_aposta_completa texto_aposta casa_aposta =
     (let oddv = extrair_odd texto_aposta;
          stake = extrair_stake texto_aposta;
          profit = extrair_profit texto_aposta stake oddv
      in \<lparr>bet_house = Some casa_aposta,
          bet_odd = oddv,
          bet_type = extrair_tipo texto_aposta casa_aposta oddv stake profit,
          bet_stake = stake,
          bet_profit = profit\<rparr>)"

section \<open>The line reassembler\<close>

text \<open>\<open>s.split(sep)\<close> for a separator of one character: there is always at least one part.\<close>

fun split_on_acc :: "nat \<Rightarrow> ustr \<Rightarrow> ustr \<Rightarrow> ustr list" where
  "split_on_acc sep acc [] = [rev acc]"
| "split_on_acc sep acc (c # cs) =
     (if c = sep then rev acc # split_on_acc sep [] cs else split_on_acc sep (c # acc) cs)"

definition split_on :: "nat \<Rightarrow> ustr \<Rightarrow> ustr list" where
  "split_on sep s = split_on_acc sep [] s"

definition sufixos_pais :: "ustr list" where
  "sufixos_pais =
     [u ''(BR)'', u ''(CO)'', u ''(PT)'', u ''(RO)'', u ''(BE)'', u ''(MX)'', u ''(UK)'', u ''(ZA)'',
      u ''(SE)'']"

definition tem_odds_usd :: "ustr \<Rightarrow> bool" where
  "tem_odds_usd linha_atual = (isin (u ''USD'') linha_atual \<and> list_ex str_isdigit linha_atual)"

text \<open>\<open>\d+\s+USD\<close> at the head of the text, and anywhere in it.\<close>

definition int_usd_at :: "ustr \<Rightarrow> bool" where
  "int_usd_at s =
     (let r = dropWhile isdigit s
      in takeWhile isdigit s \<noteq> [] \<and> r \<noteq> [] \<and> isspace (hd r)
         \<and> startswith (dropWhile isspace r) (u ''USD''))"

fun search_int_usd :: "ustr \<Rightarrow> bool" where
  "search_int_usd [] = False"
| "search_int_usd (c # cs) = (int_usd_at (c # cs) \<or> search_int_usd cs)"

text \<open>\<open>re.search(r'\d+\.\d+|\d+\s+USD', proxima_linha)\<close>.\<close>

definition tem_odds_significativos :: "ustr \<Rightarrow> bool" where
  "tem_odds_significativos proxima_linha =
     (findall_decimal proxima_linha \<noteq> [] \<or> search_int_usd proxima_linha)"

definition palavras_de_secao :: "ustr list" where
  "palavras_de_secao =
     [u ''aposta total'', u ''mostrar'', u ''use sua'', u ''arredondar'', u ''evento'', u ''chance'']"

definition eh_continuacao :: "ustr \<Rightarrow> bool" where
  "eh_continuacao proxima_linha =
     (proxima_linha \<noteq> []
      \<and> \<not> tem_odds_significativos proxima_linha
      \<and> proxima_linha \<notin> set [[9002], [9675], [9679]]
      \<and> \<not> list_ex (\<lambda>keyword. isin keyword (lower proxima_linha)) palavras_de_secao
      \<and> 2 < length proxima_linha)"

text \<open>
  The loop over the raw lines. A blank line is skipped; a line whose successor is a country
  suffix, or that carries odds in USD and whose successor is a continuation, is joined with
  the successor and both are consumed; any other line is emitted stripped.
\<close>

fun juntar_linhas :: "ustr list \<Rightarrow> ustr list" where
  "juntar_linhas [] = []"
| "juntar_linhas [l] = (if strip l = [] then [] else [strip l])"
| "juntar_linhas (l # p # rest) =
     (if strip l = [] then juntar_linhas (p # rest)
      else if strip p \<in> set sufixos_pais then (strip l @ [32] @ strip p) # juntar_linhas rest
      else if tem_odds_usd (strip l) \<and> eh_continuacao (strip p)
      then (strip l @ [32] @ strip p) # juntar_linhas rest
      else strip l # juntar_linhas (p # rest))"

definition preprocessar_linhas_quebradas :: "ustr \<Rightarrow> ustr" where
  "preprocessar_linhas_quebradas texto = join [10] (juntar_linhas (split_on 10 texto))"

section \<open>The house gazetteer\<close>

text \<open>
  The list \<open>casas_sistema\<close> of the source, in its order. One entry has a Cyrillic capital
  letter (U+0421) in the place of a Latin C; it stands between the two ASCII parts.
\<close>

definition casas_antes :: "ustr list" where
  "casas_antes = map u
     [''10Bet'', ''10Bet (SE)'', ''10Bet (ZA)'', ''10Bet (UK)'', ''10Bet (MX)'', ''888Games'',
      ''10Cric'', ''188Bet'', ''188Bet (PT)'', ''188Bet (Sbk)'', ''188Bet (ZH)'',
      ''HGA030 (Crown)'', ''HGA035 (Crown)'', ''18Bet'', ''BabiBet'', ''Hollywoodbets (UK)'',
      ''Premium Tradings'', ''RoyalistPlay'', ''RoyalistPlay (Bet)'', ''1Bet (CO)'', ''21Red'',
      ''Bet-Bra SB (BR)'', ''BetOBet'', ''BetOBet (CC)'', ''Dazzlehand'', ''FoggyBet'',
      ''OneCasino'', ''Scarawins'', ''1Win (Original)'', ''1xBet'', ''1xBet (AG)'',
      ''1xBet (BO)'', ''1xBet (MD)'', ''1xBet (NG)'', ''1xstavka (RU)'', ''Betandyou'',
      ''Linebet'', ''MegaPari'', ''Oppa88'', ''Pari-pesa'', ''Paripesa'', ''Paripesa (Asia)'',
      ''Paripesa (Biz)'', ''Paripesa (Com)'', ''Paripesa (Cool)'', ''Paripesa (ME)'',
      ''Paripesa (Net)'', ''Paripesa (NG)'', ''Paripesa (PT)'', ''Paripesa (Site)'',
      ''Paripesaut'', ''SapphireBet'', ''1xBet (ES)'', ''1xBet (IT)'', ''Fastbet (IT)'',
      ''22Bet'', ''22Bet (CM)'', ''22Bet (NG)'', ''22win88'', ''Bestwinzz'', ''32Red'',
      ''Unibet (EE)'', ''Unibet (IE)'', ''Unibet (UK)'', ''3et'', ''888sport'',
      ''888sport (DE)'', ''888sport (DK)'', ''888sport (ES)'', ''888sport (RO)'', ''MrGreen'',
      ''MrGreen (DK)'', ''MrGreen (SE)'', ''888sport (IT)'', ''AccessBet'', ''AdjaraBet'',
      ''Admiral (AT)'', ''Admiral (DE)'', ''AdmiralBet (ES)'', ''AdmiralCasino (UK)'',
      ''Swisslos (CH)'', ''AdmiralBet (IT)'', ''Afribet (NG)'', ''Betfred (ZA)'', ''AI Sports'',
      ''AirBet (IT)'', ''AndromedaBet (IT)'', ''BetItaly (IT)'', ''Akbets'', ''AlfaBet (BR)'',
      ''Aposta1 (BR)'', ''Apostaganha (BR)'', ''ArtlineBet'', ''AsianOdds'', ''B1Bet (BR)'',
      ''Bahigo'', ''Kakeyo'', ''BaltBet (RU)'', ''BandBet (BR)'', ''BangBet'', ''Betsure'',
      ''BantuBet (AO)'', ''Bet2U2'', ''BetBaba (NG)'', ''Bet-at-home'', ''Bet-at-home (DE)'',
      ''Bet-Bra (BR)'', ''Bet25 (DK)'', ''Bet3000 (DE)'', ''Bet365 (Fast)'', ''28365365'',
      ''365-808'', ''365sb'', ''365sport365'', ''878365'', ''Allsport365'', ''Bet365 (AU)'',
      ''Bet365 (BR)'', ''Bet365 (DE)'', ''Bet365 (ES)'', ''Bet365 (GR)'', ''Bet365 (IT)'',
      ''Bet365 (NL)'', ''Game-365 (CN)'', ''Bet365 (Full)'', ''Bet4 (BR)'', ''Bet4'',
      ''Bet4 (PE)'', ''Bet7'', ''Bet7k (BR)'', ''B2XBET (BR)'', ''BetBet (BR)'',
      ''Cassino (BR)'', ''Donald (BR)'', ''Vera (BR)'', ''Bet9ja'', ''Betadonis'',
      ''Betaland (IT)'', ''Betano'', ''Betano (CZ)'', ''Betano (DE)'', ''Betano (MX)'',
      ''Betano (NG)'', ''Betano (RO)'', ''Betano (BR)'', ''Betano (PT)'', ''Betao (BR)'',
      ''BravoBet (BR)'', ''Maxima (BR)'', ''R7Bet (BR)'', ''XpBet (BR)'', ''BetBoom (BR)'',
      ''BetBoom'', ''BetBoom (RU)'', ''Betboro'', ''Betboro (GH)'', ''Betcity'',
      ''Betcity (BY)'', ''Betcity (Net)'', ''Betcity (RU)'', ''Formula55 (TJ)'',
      ''Betcity (NL)'', ''SpeedyBet'', ''BetClic'', ''BetClic (FR)'', ''BetClic (IT)'',
      ''BetClic (PL)'', ''BetClic (PT)'', ''Betcris'', ''Betcris (DO)'', ''Betcris (MX)'',
      ''Betcris (PL)'', ''BetDaq'', ''BetDaSorte (BR)'', ''Afun (BR)'', ''BetDSI (EU)'',
      ''BetEsporte (BR)'', ''LanceDeSorte (BR)'', ''Betfair'', ''Betfair (AU)'',
      ''Betfair (BR)'', ''Betfair (RO)'', ''SatSport'', ''Sharpxch'', ''Tradexbr'',
      ''Betfair (ES)'', ''Betfair (IT)'', ''Betfair (MBR)'', ''Betfair SB'', ''Betfair SB (ES)'',
      ''Betfair SB (RO)'', ''Betfarm'', ''Betfirst (BE)'', ''Betflip'', ''Casobet (Sport)'',
      ''Fairspin'', ''Tether'', ''Betfred'', ''BetiBet'', ''Betika (KE)'', ''BetInAsia (Black)'',
      ''Betinia'', ''CampoBet'', ''Lottoland (UK)'', ''BetKing'', ''Betlive'', ''Betmaster'',
      ''BetMomo'', ''Betnacional (BR)'', ''Betnation (NL)'', ''BetOnline (AG)'',
      ''BetOnline (Classic)'', ''LowVig (AG)'', ''SportsBetting (AG)'', ''TigerGaming'',
      ''BetPawa (NG)'', ''BetPawa (CM)'', ''BetPawa (GH)'', ''BetPawa (KE)'', ''BetPawa (RW)'',
      ''BetPawa (TZ)'', ''BetPawa (UG)'', ''BetPawa (ZM)'', ''BetPix365 (BR)'', ''Vaidebet'',
      ''BetRebels'', ''21Bets'', ''7bet (LT)'', ''All British Casino'', ''ApuestaTotal'',
      ''Bankonbet'', ''BaumBet (RO)'', ''Bet593 (EC)'', ''Betaki (BR)'', ''Betanoshops (NG)'',
      ''Betinia (DK)'', ''Betinia (SE)'', ''BetNFlix'', ''Bettarget (UK)'', ''CampeonBet'',
      ''Casinado'', ''CasinoAtlanticCity'', ''Casinoly'', ''Cazimbo'', ''DoradoBet'',
      ''Ecuabet'', ''ElaBet (GR)'', ''EsportivaBet (BR)'', ''EstrelaBet (BR)'', ''EvoBet'',
      ''FezBet'', ''FrankSports (RO)'', ''GastonRed'', ''Golden Palace (BE)'', ''Greatwin'',
      ''Jogodeouro (BR)'', ''Juegaenlineachile (CL)'', ''JupiCasino'', ''Karamba'',
      ''Karamba (UK)'', ''Lapilanders'', ''LotoGreen (BR)'', ''Lottland (IE)'', ''Lottoland'',
      ''Lottoland (AT)'', ''MalinaCasino'', ''Mcgames (BR)'', ''Merkurxtip (CZ)'',
      ''Metgol (BR)'']"

definition casas_depois :: "ustr list" where
  "casas_depois = map u
     [''MrBit (BG)'', ''MrBit (RO)'', ''MultiBet (BR)'', ''NinjaCasino'', ''Novajackpot'',
      ''Playdoit (MX)'', ''PowBet'', ''Rabona'', ''RabonaBet'', ''RtBet'', ''SlotV (RO)'',
      ''SONSofSLOTS'', ''Spinanga'', ''Sportaza'', ''StarCasinoSport (BE)'', ''Supacasi'',
      ''SvenBet'', ''Svenplay'', ''ToonieBet (CA)'', ''Vavada'', ''Vegas (HU)'', ''Wazamba'',
      ''Winpot (MX)'', ''Betrivers (CA)'', ''Betrivers (AZ)'', ''Betsafe'', ''Bethard'',
      ''Betsafe (EE)'', ''Betsafe (LV)'', ''Betsafe (SE)'', ''Betsson'', ''Bets10'',
      ''Betsson (AR)'', ''Betsson (BR)'', ''Betsson (CO)'', ''Betsson (SE)'', ''Inkabet (PE)'',
      ''Betsson (ES)'', ''Betpark (BR)'', ''SupremaBet (BR)'', ''Betsson (FR)'',
      ''Betsson (GE)'', ''Betsson (GR)'', ''Betsmith'', ''Betsson (IT)'', ''Betsul (BR)'',
      ''Betuk (UK)'', ''Betus (PA)'', ''BetVictor'', ''Parimatch (UK)'', ''Puntit (IN)'',
      ''BetWarrior'', ''BetWarrior (BR)'', ''BetWarrior (Caba)'', ''BetWarrior (MZA)'',
      ''BetWarrior (PBA)'', ''BetWarrior Apuestas (AR)'', ''LeoVegas (IT)'',
      ''Svenska Spel (SE)'', ''BetWay'', ''BetWay (DE)'', ''BetWay (ES)'', ''BetWay (MX)'',
      ''BetWay (IT)'', ''Betwgb'', ''AdmiralBet (ME)'', ''AdmiralBet (RS)'', ''AdmiralBet (UG)'',
      ''BetX (CZ)'', ''Betxchange'', ''Bingoal (BE)'', ''BallyBet'', ''BetPlay (CO)'',
      ''Bingoal (NL)'', ''Desert Diamond'', ''Expekt (SE)'', ''Blaze'', ''4RaBet'',
      ''4RaBet (Play)'', ''500Casino'', ''Africa365'', ''BC.Game'', ''BetFury'', ''Betonred'',
      ''Betonred (NG)'', ''BetPlay'', ''BetTilt'', ''Betvip'', ''Betvip (BR)'', ''BilBet'',
      ''Bitz'', ''Blaze (BR)'', ''BloodMoon (CO)'', ''BlueChip'', ''Bons'', ''CasinoX'',
      ''Casinozer'', ''Casinozer (EU)'', ''CsGo500'', ''Fortunejack'', ''HugeWin'',
      ''JetBet (BR)'', ''JonBet (BR)'', ''Joycasino'', ''Lucky Block'', ''Lucky Block (Top)'',
      ''Opabet'', ''PinBet'', ''Pokerdom'', ''PuskasBet (BR)'', ''Rainbet'', ''RajaBets'',
      ''Razed'', ''Riobet'', ''Rivalry'', ''Rollbit'', ''RooBet'', ''Slots Safari (CO)'',
      ''Solcasino'', ''TrBET'', ''Yonibet'', ''Yonibet (EU)'', ''BoaBet'', ''Bodog (EU)'',
      ''Bovada (LV)'', ''BolsaDeAposta (BR)'', ''BolsaDeAposta TB (BR)'', ''BookMaker (EU)'',
      ''JustBet (CO)'', ''BookmakerXyz'', ''BoyleSports'', ''Brazino 777'', ''Brazino 777 (BY)'',
      ''Brazino 777 (IO)'', ''Wazobet'', ''BrBet (BR)'', ''BresBet'', ''Bumbet'', ''Bwin'',
      ''Betboo (BR)'', ''Betmgm (CA)'', ''Betmgm (MA)'', ''Betmgm (NY)'', ''Bwin (BE)'',
      ''Bwin (DE)'', ''Bwin (DK)'', ''Bwin (ES)'', ''Bwin (GR)'', ''Bwin (IT)'', ''Gamebookers'',
      ''Giocodigitale (IT)'', ''Ladbrokes (DE)'', ''Oddset (DE)'', ''Partypoker'',
      ''Sportingbet'', ''Sportingbet (BR)'', ''Sportingbet (DE)'', ''Sportingbet (GR)'',
      ''Sportingbet (ZA)'', ''Vistabet (GR)'', ''Bwin (FR)'', ''Bwin (PT)'', ''Caliente (MX)'',
      ''Betcha (PA)'', ''Marca Apuestas (ES)'', ''Wplay (CO)'', ''CampoBet (DK)'',
      ''Casa Pariurilor (RO)'', ''Fortuna (RO)'', ''CasaDeApostas (BR)'', ''Betmais'',
      ''CasinoPortugal (PT)'', ''CBet'', ''CBet (LT)'', ''Circus (BE)'', ''Circus (NL)'',
      ''CloudBet'', ''Codere (ES)'', ''Codere (AR)'', ''Codere (MX)'', ''Comeon'',
      ''Casinostugan'', ''Comeon (PL)'', ''Hajper'', ''Lyllo Casino'', ''MobileBet'',
      ''Nopeampi'', ''Pzbuk (PL)'', ''Saga Kingdom'', ''Snabbare'', ''SunMaker (DE)'',
      ''Comeon (NL)'', ''CoolBet'', ''CoolBet (CL)'', ''CoolBet (PE)'', ''Coral (UK)'',
      ''Crocobet'', ''CrystalBet (GE)'', ''DafaBet (ES)'', ''DafaBet (Sports)'', ''Amperjai'',
      ''Nextbet'', ''DafaBet OW (Saba)'', ''12Bet (Saba)'', ''12Bet (Saba-ID)'',
      ''12Bet (Saba-MY)'', ''CMD368 (Saba)'', ''M88 (Saba)'', ''W88Live (Saba)'',
      ''Danskespil (DK)'', ''DaznBet (ES)'', ''DaznBet (UK)'', ''DomusBet (IT)'',
      ''DoxxBet (SK)'', ''Draftkings'', ''Draftking (CT)'', ''DragonBet (UK)'', ''DripCasino'',
      ''Duelbits'', ''Easybet (ZA)'', ''Ebingo (ES)'', ''BetaBet'', ''BetaBet (Net)'',
      ''Betcoin (AG)'', ''ShansBet'', ''EDSBet'', ''Efbet (ES)'', ''Efbet (BG)'', ''Efbet (IT)'',
      ''Efbet (RO)'', ''Efbet (GR)'', ''Efbet (Net)'', ''EGB'', ''EGB SPORT'', ''EpicBet'',
      ''Eplay24 (IT)'', ''BegameStar (IT)'', ''Betwin360 (IT)'', ''SportItaliaBet (IT)'',
      ''EsporteNetBet (BR)'', ''BetsBola'', ''EsporteNetSP (BR)'', ''EsporteNetVip (BR)'',
      ''EsporteNetVip'', ''EsportesDaSorte (BR)'', ''EstorilSolCasinos (PT)'', ''Etipos (SK)'',
      ''Etopaz (AZ)'', ''Etoto (PL)'', ''EuroBet (IT)'', ''EveryGame (EU)'', ''ExclusiveBet'',
      ''Betfinal'', ''IZIbet'', ''MrXBet'', ''ShangriLa'', ''UniClub (LT)'', ''Expekt (DK)'',
      ''LeoVegas (DK)'', ''F12Bet (BR)'', ''SPIN (BR)'', ''Fanatics'', ''FanDuel'',
      ''Betfair SB (BR)'', ''FanDuel (CT)'', ''Fastbet'', ''CopyBet (CY)'', ''FavBet'',
      ''FavBet (UA)'', ''FB Sports'', ''Fonbet'', ''BeteryBet (IN)'', ''Bettery (RU)'',
      ''Fonbet (GR)'', ''Fonbet (KZ)'', ''Fonbet (Mobile)'', ''Pari (RU)'', ''Football (NG)'',
      ''Fortuna (CZ)'', ''Fortuna (PL)'', ''Fortuna (SK)'', ''FulltBet (BR)'',
      ''GaleraBet (BR)'', ''888Casino (Arabic)'', ''Gamdom'', ''GazzaBet (IT)'',
      ''Germania (HR)'', ''GGBet'', ''Freeggbet'', ''Vulkan'', ''Goalbet'', ''GoldBetShop (IT)'',
      ''BetFlag (IT)'', ''GoldBet (IT)'', ''IntralotShop (IT)'', ''Lottomatica (IT)'',
      ''PlanetWin365 (IT)'', ''GoldenPark (ES)'', ''CasinoBarcelona (ES)'', ''Solcasino (ES)'',
      ''GoldenPark (PT)'', ''GoldenVegas (BE)'', ''GrandGame (BY)'', ''HiperBet (BR)'', ''HKJC'',
      ''HoliganBet (TR)'', ''JojoBet'', ''Holland Casino (NL)'', ''Hollywoodbets'',
      ''Hollywoodbets (MZ)'', ''iForBet (PL)'', ''Ilotbet'', ''Interwetten'',
      ''Interwetten (ES)'', ''Interwetten (GR)'', ''IviBet'', ''20Bet'', ''Jacks (NL)'',
      ''Expekt'', ''JetCasino'', ''Flagman'', ''FreshCasino'', ''Rox (Sport)'',
      ''Jokerbet (ES)'', ''JSB'', ''Boltbet (GH)'', ''Primabet (GM)'', ''TicTacBets (ZA)'',
      ''JugaBet (CL)'', ''Parimatch (TJ)'', ''KingsBet (CZ)'', ''KirolBet (ES)'',
      ''Apuestasvalor (ES)'', ''Aupabet (ES)'', ''Juegging (ES)'', ''Kwiff'', ''Betkwiff'',
      ''Ladbrokes'', ''Ladbrokes (BE)'', ''LeaderBet'', ''Lebull (PT)'', ''Leon'', ''Leon (RU)'',
      ''Twin'', ''LeoVegas'', ''Betmgm (BR)'', ''Williamhill (SE)'', ''LeoVegas (ES)'',
      ''LigaStavok (RU)'', ''LivescoreBet (NG)'', ''SunBet (ZA)'', ''LivescoreBet (UK)'',
      ''LivescoreBet (IE)'', ''VirginBet'', ''LsBet'', ''KikoBet'', ''Mundoapostas'',
      ''ReloadBet'', ''SlottoJAM'', ''TornadoBet'', ''Luckia (ES)'', ''Luckia (CO)'',
      ''Luckia (MX)'', ''LvBet'', ''LvBet (LV)'', ''LvBet (PL)'', ''Mansion (M88-BTI)'',
      ''Marathon'', ''Marathon (BY)'', ''Marathon (RU)'', ''MBet'', ''MarathonBet (DK)'',
      ''MarathonBet (ES)'', ''MarathonBet (IT)'', ''MarjoSports (BR)'', ''Marjo Sports (BR)'',
      ''Marjo'', ''Matchbook'', ''Maxbet (RS)'', ''Maxbet (BA)'', ''MaxLine (BY)'', ''Mcbookie'',
      ''StarSports'', ''MelBet'', ''Betwinner'', ''DBbet'', ''MelBet (BI)'', ''MelBet (KE)'',
      ''MelBet (MN)'', ''Meridian'', ''Meridian (CY)'', ''Meridian (BE)'', ''Meridian (BA)'',
      ''Meridian (ME)'', ''Meridian (RS)'', ''Meridian (PE)'', ''JogaBets (MZ)'',
      ''Meridian (BR)'', ''MerkurBets'', ''Betcenter (BE)'', ''Cashpoint (DK)'',
      ''MerkurBets (DE)'', ''Miseojeu+'', ''Misli (AZ)'', ''MostBet'', ''Mozzart'',
      ''Mozzart (BA)'', ''Mozzart (NG)'', ''Mozzart (RO)'', ''MSport (GH)'', ''MSport (NG)'',
      ''Mystake'', ''31Bet'', ''9dBet (BR)'', ''Betfast'', ''Betfast (BR)'', ''Donbet'',
      ''Donbet (Win)'', ''Faz1Bet (BR)'', ''Freshbet'', ''Goldenbet'', ''Jackbit'',
      ''Mystake (Bet)'', ''Rolletto'', ''TivoBet (BR)'', ''Velobet (Win)'', ''Wjcasino (BR)'',
      ''N1Bet'', ''12Play'', ''CelsiusCasino'', ''Coins Game'', ''Wild'', ''YBets'',
      ''NaijaBet'', ''NairaBet'', ''Napoleon (BE)'', ''Neobet'', ''Neobet (CA)'',
      ''Neobet (DE)'', ''Neobet (ZA)'', ''Nesine (TR)'', ''Bilyoner'', ''Misli (Com)'', ''Oley'',
      ''NetBet'', ''Bet777 (BE)'', ''Bet777 (ES)'', ''NetBet (GR)'', ''NetBet (BR)'',
      ''NetBet (FR)'', ''NetBet (IT)'', ''DaznBet (IT)'', ''OriginalBet (IT)'', ''Plexbet (IT)'',
      ''NetBet (RO)'', ''Nike (SK)'', ''NitroBetting (EU)'', ''Norsk Tipping (NO)'',
      ''Novibet (BR)'', ''Novibet (GR)'', ''Novibet (IE)'', ''Olimp'', ''Olimp (Bet)'',
      ''Olimpbet (KZ)'', ''Olimpkz'', ''OlimpoBet (PE)'', ''OlyBet (ES)'', ''OlyBet (EU)'',
      ''OlyBet (FR)'', ''FeelingBet (FR)'', ''Genybet (FR)'', ''OlyBet (LT)'', ''Onabet (BR)'',
      ''Esporte365 (BR)'', ''LuckBet (BR)'', ''Luvabet (BR)'', ''Optibet (LT)'',
      ''Optibet (LV)'', ''Optibet (EE)'', ''OrbitX'', ''OrbiteX'', ''Paddy Power'',
      ''PameStoixima (GR)'', ''Parasino'', ''ApxBet'', ''Betonngliga'', ''BigBet (BR)'',
      ''LiderBet (BR)'', ''RealsBet (BR)'', ''Parimatch (KZ)'', ''BuddyBet (UA)'',
      ''Gra (Live)'', ''ParionsSport (FR)'', ''Paston (ES)'', ''Br4bet (BR)'',
      ''SorteOnline (BR)'', ''Pin-up'', ''BetPlays'', ''Pin-up (RU)'', ''BaseBet'',
      ''Casino Spinamba'', ''Lucky Bird Casino'', ''MarsBet'', ''Pin-up (EN)'', ''Slottica'',
      ''Slotty Way'', ''Winmasters'', ''Winmasters (CY)'', ''Winmasters (GR)'',
      ''Winmasters (RO)'', ''Pinnacle'', ''P4578 (Asian)'', ''P4578 (EU)'', ''Pin135 (EU)'',
      ''Pinnacle (Bet)'', ''Pinnacle (BR)'', ''Pinnacle (SE)'', ''Pinnacle888 (Asian)'',
      ''Pinnacle888 (EU)'', ''Piwi247 (SB)'', ''PS3838 (Broker)'', ''Start975 (Asian)'',
      ''Start975 (EU)'', ''Piwi247'', ''PixBet (BR)'', ''FlaBet (BR)'', ''Pixbet285'',
      ''Placard (PT)'', ''Playbonds'', ''PlayNow'', ''PMU (FR)'', ''PointsBet (AU)'',
      ''PokerStars'', ''PokerStars (DK)'', ''PokerStars (RO)'', ''PokerStars (FR)'',
      ''PokerStars (UK)'', ''PokerStars (CA)'', ''PokerStars (ES)'', ''PokerStars (SE)'',
      ''PremierBet (MW)'', ''MercuryBet'', ''PremierBet (AO)'', ''PremierBet (CD)'',
      ''PremierBet (CG)'', ''PremierBet (CM)'', ''PremierBet (MZ)'', ''PremierBet (SN)'',
      ''PremierBet (TD)'', ''PremierBet (TZ)'', ''QQ101 (BTI)'', ''10Bet (KR)'',
      ''12Bet (BTI-ID)'', ''Fun88 (IN)'', ''QQ101 (IM Sports)'', ''RayBet'',
      ''Reidopitaco (BR)'', ''RetaBet (ES)'', ''RetaBet (ES-AN)'', ''RetaBet (PE)'',
      ''RicoBet (BR)'', ''BetGorillas (BR)'', ''KingpandaBet (BR)'', ''Rivalo (BR)'',
      ''Rivalo (CO)'', ''RuBet'', ''Rushbet (CO)'', ''GoldenBull (SE)'', ''Rushbet (MX)'',
      ''Sazka (CZ)'', ''Sbobet'', ''Pic5678'', ''SbobetAsia'', ''SboTop'', ''Sbobet (Esport)'',
      ''12Bet (Esport)'', ''BTC365 (Esport)'', ''VKGame'', ''SeuBet (BR)'', ''747 Live'',
      ''Shuffle'', ''Sisal (IT)'', ''PokerStars (IT)'', ''SkyBet'', ''Smarkets'', ''Snai (IT)'',
      ''SoccaBet'', ''SolisBet'', ''Solverde (PT)'', ''SorteNaBet (BR)'', ''Bateu (BR)'',
      ''Betfusion (BR)'', ''BullsBet (BR)'', ''SportBet (IT)'', ''BetX (IT)'', ''StarGame (IT)'',
      ''SportingWin'', ''Sportium (CO)'', ''Sportium (ES)'', ''Sportmarket'', ''SportsBet'',
      ''SportsBet (AU)'', ''SportyBet'', ''SportyBet (BR)'', ''Stake'', ''Stake (BR)'',
      ''KTO (BR)'', ''Stake (CO)'', ''Frumzi'', ''FunBet'', ''LibraBet'', ''MafiaCasino'',
      ''StoneVegas'', ''StanleyBet (BE)'', ''StanleyBet (IT)'', ''StanleyBet (RO)'',
      ''Admiral (RO)'', ''StarCasino (NL)'', ''Stoiximan (GR)'', ''Stoiximan (CY)'',
      ''Stoiximan (GR)'', ''STS (PL)'', ''SuperBet (BR)'', ''Super Bet (BR)'', ''SuperBet (PL)'',
      ''SuperBet (RO)'', ''SuperBet (RS)'', ''Surebet247'', ''SX Bet'', ''SynotTip (LV)'',
      ''SynotTip (CZ)'', ''SynotTip (SK)'', ''Tab (AU)'', ''TeApuesto (PE)'', ''TempoBet'',
      ''Tennisi'', ''Tennisi (Bet)'', ''Tennisi (KZ)'', ''ThunderPickIo (NO)'', ''Tipico'',
      ''Tipico (DE)'', ''Tipp3 (AT)'', ''TippmixPro (HU)'', ''Tipsport (CZ)'', ''Chance (CZ)'',
      ''Tipsport (SK)'', ''Tipwin (DE)'', ''Tipwin'', ''Tipwin (DK)'', ''Tipwin (SE)'',
      ''TonyBet'', ''Vave'', ''TonyBet (ES)'', ''TonyBet (NL)'', ''Topsport (LT)'',
      ''Toto (NL)'', ''TotoGaming (AM)'', ''1Win (Provider)'', ''Cannonbet'',
      ''CaptainsBet (KE)'', ''MelBet (NG)'', ''MelBet (RU)'', ''Sol.Casino'', ''Tinbet (PE)'',
      ''Winspirit'', ''Ubet (CY)'', ''Ubet (KZ)'', ''Betera (BY)'', ''Unibet (DK)'',
      ''Unibet (BE)'', ''Unibet (FI)'', ''Unibet (SE)'', ''Unibet (FR)'', ''Unibet (RO)'',
      ''ATG (SE)'', ''Betmgm (NL)'', ''Betmgm (SE)'', ''Betmgm (UK)'', ''Casumo'',
      ''Casumo (ES)'', ''GrosvenorCasinos'', ''No Account Bet (SE)'', ''Paf'', ''Paf (ES)'',
      ''Paf (SE)'', ''PafBet (LV)'', ''Scoore (BE)'', ''Unibet (AU)'', ''Unibet (IT)'',
      ''Unibet (MT)'', ''Unibet (NL)'', ''VBet'', ''Bets60'', ''H2bet (BR)'', ''Hash636'',
      ''Uabet'', ''VBet (AM)'', ''VBet (BR)'', ''7Games (BR)'', ''Seguro (BR)'', ''VBet (FR)'',
      ''VBet (LAT)'', ''VBet (NL)'', ''VBet (UK)'', ''Veikkaus (FI)'', ''Versus (ES)'',
      ''Vivasorte (BR)'', ''4Play (BR)'', ''4Win (BR)'', ''Ginga (BR)'', ''QG (BR)'',
      ''Zeroum (BR)'', ''Vulkan Bet'', ''W88Es'', ''Wildz'', ''William Hill'',
      ''Williamhill (ES)'', ''Williamhill (IT)'', ''Winamax (ES)'', ''Winamax (DE)'',
      ''Winamax (FR)'', ''WinBet (BG)'', ''WinBet (RO)'', ''Winline (RU)'', ''WolfBet'',
      ''WonderBet (CO)'', ''WWin'', ''YaassCasino (ES)'', ''Yabo888'', ''Yajuego (CO)'', ''YSB'',
      ''Zamba (CO)'', ''ZeBet'', ''ZeBet (BE)'', ''ZeBet (ES)'', ''ZeBet (NL)'', ''Zenit'',
      ''Zenit (Win)'']"

definition casas_sistema :: "ustr list" where
  "casas_sistema = casas_antes @ [u ''Mi'' @ [1057] @ u ''asino''] @ casas_depois"

text \<open>
  The sort key of the lookup order: longer names first, and among names of one length those
  with a parenthesis first. Python's \<open>sorted\<close> is stable, as \<open>sort_key\<close> is.
\<close>

definition chave_ordem :: "ustr \<Rightarrow> int \<times> bool" where
  "chave_ordem x = (- int (length x), 40 \<notin> set x)"

definition casas_ordenadas :: "ustr list" where
  "casas_ordenadas = sort_key chave_ordem casas_sistema"

section \<open>The house detector\<close>

text \<open>
  \<open>casa.split(' (', 1)\<close> with the parenthesis put back on the second part: the base name
  and the suffix.
\<close>

definition split_paren :: "ustr \<Rightarrow> ustr \<times> ustr" where
  "split_paren c = (case py_find c (u '' ('') of Some i \<Rightarrow> (take i c, drop (Suc i) c) | None \<Rightarrow> (c, []))"

text \<open>
  A name without parenthesis is searched as \<open>\b\<close>, the name with every space turned into
  \<open>\s*\<close>, and \<open>\b\<close>. \<open>match_flex\<close> matches the name at the head of the text and returns
  the last character it consumed and the text after it. No space of a name is followed by
  white space, so the run of white space taken for a space is the longest one.
\<close>

fun match_flex :: "ustr \<Rightarrow> nat option \<Rightarrow> ustr \<Rightarrow> (nat option \<times> ustr) option" where
  "match_flex [] prev s = Some (prev, s)"
| "match_flex (p # ps) prev s =
     (if p = 32
      then match_flex ps (if takeWhile isspace s = [] then prev else Some (last (takeWhile isspace s)))
             (dropWhile isspace s)
      else (case s of
              [] \<Rightarrow> None
            | c # cs \<Rightarrow> if c = p then match_flex ps (Some c) cs else None))"

definition word_flex_at :: "ustr \<Rightarrow> nat option \<Rightarrow> ustr \<Rightarrow> bool" where
  "word_flex_at casa prev s =
     (case match_flex casa prev s of
        None \<Rightarrow> False
      | Some (l, r) \<Rightarrow> boundary prev (head s) \<and> boundary l (head r))"

fun search_flex :: "ustr \<Rightarrow> nat option \<Rightarrow> ustr \<Rightarrow> bool" where
  "search_flex casa prev [] = word_flex_at casa prev []"
| "search_flex casa prev (c # cs) = (word_flex_at casa prev (c # cs) \<or> search_flex casa (Some c) cs)"

text \<open>
  The test of the loop for one name. A name with a suffix in parentheses is present when
  every word of its base and its suffix occur in the line and the first word occurs before the
  suffix. The source raises on a name whose base has no word; the gazetteer has none.
\<close>

definition casa_presente :: "ustr \<Rightarrow> ustr \<Rightarrow> bool" where
  "casa_presente linha_lower casa =
     (let casa_lower_normalized = lower casa
      in if 40 \<in> set casa_lower_normalized
         then (if isin (u '' ('') casa_lower_normalized
               then (let nome_base = fst (split_paren casa_lower_normalized);
                         sufixo = snd (split_paren casa_lower_normalized);
                         palavras_base = split_ws nome_base
                     in list_all (\<lambda>palavra. isin palavra linha_lower) palavras_base
                        \<and> isin sufixo linha_lower
                        \<and> (case palavras_base of
                              [] \<Rightarrow> False
                            | primeira # _ \<Rightarrow>
                                (case py_find linha_lower primeira of
                                   None \<Rightarrow> False
                                 | Some pos_primeira \<Rightarrow>
                                     (case py_find linha_lower sufixo of
                                        None \<Rightarrow> False
                                      | Some pos_sufixo \<Rightarrow> pos_primeira < pos_sufixo))))
               else isin casa_lower_normalized linha_lower)
         else search_flex casa_lower_normalized None linha_lower)"

text \<open>
  The pattern fallback, \<open>^([A-Z][A-Za-z\s\(\)]{2,30})\s+[A-Za-z0-9()+\-...\.]+\s+\d+\.\d+\<close>
  where the dots stand for the two signs U+2265 and U+2264. The rest after the group has
  one way to match only; the length of the group is tried from the longest down.
\<close>

definition classe_casa :: "nat \<Rightarrow> bool" where
  "classe_casa c = (ascii_alpha c \<or> isspace c \<or> c = 40 \<or> c = 41)"

definition classe_tipo :: "nat \<Rightarrow> bool" where
  "classe_tipo c =
     (ascii_alpha c \<or> isdigit c \<or> c = 40 \<or> c = 41 \<or> c = 43 \<or> c = 45 \<or> c = 8805 \<or> c = 8804
      \<or> c = 46)"

definition resto_padrao :: "ustr \<Rightarrow> bool" where
  "resto_padrao r =
     (let r1 = dropWhile isspace r;
          r2 = dropWhile classe_tipo r1;
          r3 = dropWhile isspace r2;
          r4 = dropWhile isdigit r3
      in takeWhile isspace r \<noteq> [] \<and> takeWhile classe_tipo r1 \<noteq> []
         \<and> takeWhile isspace r2 \<noteq> [] \<and> takeWhile isdigit r3 \<noteq> []
         \<and> (case r4 of d # e # _ \<Rightarrow> d = 46 \<and> isdigit e | _ \<Rightarrow> False))"

definition casa_padrao :: "ustr \<Rightarrow> ustr option" where
  "casa_padrao linha =
     (case linha of
        [] \<Rightarrow> None
      | c # cs \<Rightarrow>
          if ascii_upper c
          then first_some (\<lambda>n. if resto_padrao (drop n cs) then Some (c # take n cs) else None)
                 (rev [2 ..< Suc (min 30 (length (takeWhile classe_casa cs)))])
          else None)"

text \<open>
  The fragment fallback: the first word of the line, when it is a capitalised word of 3 to 15
  characters that some name of the gazetteer, cut before its parenthesis, starts with.
\<close>

definition casa_limpa :: "ustr \<Rightarrow> ustr" where
  "casa_limpa casa = strip (takeWhile (\<lambda>c. c \<noteq> 40) casa)"

definition fragmento_inicial :: "ustr \<Rightarrow> ustr option" where
  "fragmento_inicial linha =
     (case split_ws (strip linha) of
        [] \<Rightarrow> None
      | primeira_palavra # _ \<Rightarrow>
          if 3 \<le> length primeira_palavra \<and> length primeira_palavra \<le> 15
             \<and> isupper (hd primeira_palavra)
             \<and> list_ex (\<lambda>casa. startswith (lower (casa_limpa casa)) (lower primeira_palavra))
                  casas_sistema
          then Some primeira_palavra else None)"

definition detectar_casa_apostas :: "ustr \<Rightarrow> ustr option" where
  "detectar_casa_apostas linha =
     (case find (casa_presente (lower linha)) casas_ordenadas of
        Some casa \<Rightarrow> Some casa
      | None \<Rightarrow>
          (case casa_padrao linha of
             Some grupo \<Rightarrow>
               if 3 \<le> length (strip grupo) then Some (strip grupo) else fragmento_inicial linha
           | None \<Rightarrow> fragmento_inicial linha))"

section \<open>The record of a document\<close>

record dados =
  date :: "ustr option"
  sport :: "ustr option"
  league :: "ustr option"
  teamA :: "ustr option"
  teamB :: "ustr option"
  bet1 :: bet
  bet2 :: bet
  bet3 :: bet
  profitPercentage :: "pyfloat option"

definition bet_vazio :: bet where
  "bet_vazio = \<lparr>bet_house = None, bet_odd = None, bet_type = None, bet_stake = None, bet_profit = None\<rparr>"

definition dados_iniciais :: dados where
  "dados_iniciais =
     \<lparr>date = None, sport = None, league = None, teamA = None, teamB = None,
      bet1 = bet_vazio, bet2 = bet_vazio, bet3 = bet_vazio, profitPercentage = None\<rparr>"

text \<open>The truth value of an optional string: \<open>None\<close> and the empty string are false.\<close>

definition preenchido :: "ustr option \<Rightarrow> bool" where
  "preenchido x = (case x of None \<Rightarrow> False | Some s \<Rightarrow> s \<noteq> [])"

section \<open>Date, teams, sport and league of a page\<close>

text \<open>
  \<open>\((\d{4}-\d{2}-\d{2}\s+\d{2}:\d{2})\<close>: group 1 of a match at the head of the text, and of
  the first match in the text.
\<close>

definition digitos :: "nat \<Rightarrow> ustr \<Rightarrow> bool" where
  "digitos n s = (n \<le> length s \<and> list_all isdigit (take n s))"

definition data_at :: "ustr \<Rightarrow> ustr option" where
  "data_at s =
     (let d = drop 1 s; ws = takeWhile isspace (drop 10 d); h = drop (10 + length ws) d
      in if head s = Some 40 \<and> digitos 4 d \<and> head (drop 4 d) = Some 45 \<and> digitos 2 (drop 5 d)
            \<and> head (drop 7 d) = Some 45 \<and> digitos 2 (drop 8 d) \<and> ws \<noteq> [] \<and> digitos 2 h
            \<and> head (drop 2 h) = Some 58 \<and> digitos 2 (drop 3 h)
         then Some (take (10 + length ws + 5) d) else None)"

fun search_data :: "ustr \<Rightarrow> ustr option" where
  "search_data [] = None"
| "search_data (c # cs) = (case data_at (c # cs) of Some g \<Rightarrow> Some g | None \<Rightarrow> search_data cs)"

text \<open>
  The date of a page. \<open>formatar\<close> stands for \<open>strptime\<close> followed by \<open>strftime\<close>, which
  belong to the platform: it gives the reformatted date, or \<open>None\<close> where \<open>strptime\<close> raises and
  the source passes.
\<close>

definition extrair_data :: "(ustr \<Rightarrow> ustr option) \<Rightarrow> ustr list \<Rightarrow> ustr option \<Rightarrow> ustr option" where
  "extrair_data formatar linhas atual =
     (case find (\<lambda>linha. isin (u ''Evento'') linha \<and> 40 \<in> set linha) linhas of
        None \<Rightarrow> atual
      | Some linha \<Rightarrow>
          (case search_data linha of
             None \<Rightarrow> atual
           | Some data_str \<Rightarrow>
               (case formatar (strip data_str) of None \<Rightarrow> atual | Some dt \<Rightarrow> Some dt)))"

text \<open>\<open>(\d+\.\d+)%\s*$\<close>: the index of the first match and its group 1.\<close>

definition percent_at :: "ustr \<Rightarrow> ustr option" where
  "percent_at s =
     (let d1 = takeWhile isdigit s;
          r1 = dropWhile isdigit s;
          d2 = takeWhile isdigit (drop 1 r1);
          r2 = dropWhile isdigit (drop 1 r1)
      in if d1 \<noteq> [] \<and> head r1 = Some 46 \<and> d2 \<noteq> [] \<and> head r2 = Some 37
            \<and> list_all isspace (drop 1 r2)
         then Some (d1 @ [46] @ d2) else None)"

fun search_percent :: "ustr \<Rightarrow> (nat \<times> ustr) option" where
  "search_percent [] = None"
| "search_percent (c # cs) =
     (case percent_at (c # cs) of
        Some g \<Rightarrow> Some (0, g)
      | None \<Rightarrow> map_option (\<lambda>(i, g). (Suc i, g)) (search_percent cs))"

definition linha_de_times :: "ustr \<Rightarrow> bool" where
  "linha_de_times linha =
     (8211 \<in> set linha \<and> 37 \<in> set linha \<and> \<not> isin (u ''ROI'') linha \<and> \<not> isin (u ''Evento'') linha)"

text \<open>The teams and the profit percentage, from the first line of teams of the page.\<close>

definition extrair_times :: "ustr list \<Rightarrow> dados \<Rightarrow> dados" where
  "extrair_times linhas d =
     (case find linha_de_times linhas of
        None \<Rightarrow> d
      | Some linha \<Rightarrow>
          (let match_percent = search_percent linha;
               d1 = (case match_percent of
                       None \<Rightarrow> d
                     | Some (i, g) \<Rightarrow> d\<lparr>profitPercentage := Some (float_of g)\<rparr>);
               linha_times = (case match_percent of
                                None \<Rightarrow> linha
                              | Some (i, g) \<Rightarrow> strip (take i linha))
           in if 8211 \<in> set linha_times
              then (case split_on 8211 linha_times of
                      a # b # _ \<Rightarrow> d1\<lparr>teamA := Some (strip a), teamB := Some (strip b)\<rparr>
                    | _ \<Rightarrow> d1)
              else d1))"

definition esportes :: "ustr list" where
  "esportes =
     [u ''futebol'', u ''football'', u ''soccer'', u ''basquete'', u ''basketball'',
      u ''basquetebol'', u ''t'' @ [234] @ u ''nis'', u ''tennis'', u ''h'' @ [243] @ u ''quei'',
      u ''hockey'', u ''hoquei'', u ''beisebol'', u ''beisebal'', u ''baseball'', u ''voleibol'',
      u ''volleyball'', u ''v'' @ [244] @ u ''lei'', u ''volei'', u ''handball'', u ''handebol'',
      u ''rugby'', u ''cricket'', u ''futsal'']"

text \<open>The index of the first line that holds both team names, if both are set.\<close>

definition indice_times :: "ustr list \<Rightarrow> dados \<Rightarrow> nat option" where
  "indice_times linhas d =
     (case (teamA d, teamB d) of
        (Some a, Some b) \<Rightarrow>
          (if a \<noteq> [] \<and> b \<noteq> []
           then map_option fst (find (\<lambda>(i, linha). isin a linha \<and> isin b linha) (enumerate 0 linhas))
           else None)
      | _ \<Rightarrow> None)"

text \<open>Sport and league of a line: the text before and after the first \<open>' / '\<close>.\<close>

definition partes_esporte :: "ustr \<Rightarrow> ustr \<times> ustr" where
  "partes_esporte linha =
     (case py_find linha (u '' / '') of
        None \<Rightarrow> (strip linha, [])
      | Some i \<Rightarrow> (strip (take i linha), strip (drop (i + 3) linha)))"

definition perto_dos_times :: "nat option \<Rightarrow> nat \<Rightarrow> bool" where
  "perto_dos_times idx i =
     (case idx of None \<Rightarrow> True | Some k \<Rightarrow> \<not> 5 < (if i < k then k - i else i - k))"

definition linha_de_esporte :: "ustr \<Rightarrow> bool" where
  "linha_de_esporte linha =
     (isin (u '' / '') linha \<and> list_ex (\<lambda>esporte. isin esporte (lower linha)) esportes)"

text \<open>\<open>\d+\.\d{2,}\<close> and \<open>\d{2,}\<close> somewhere in the text.\<close>

fun tem_odds_longas :: "ustr \<Rightarrow> bool" where
  "tem_odds_longas (a # b # c # d # rest) =
     ((isdigit a \<and> b = 46 \<and> isdigit c \<and> isdigit d) \<or> tem_odds_longas (b # c # d # rest))"
| "tem_odds_longas s = False"

fun tem_dois_digitos :: "ustr \<Rightarrow> bool" where
  "tem_dois_digitos (a # b # rest) = ((isdigit a \<and> isdigit b) \<or> tem_dois_digitos (b # rest))"
| "tem_dois_digitos s = False"

definition linha_generica :: "ustr \<Rightarrow> bool" where
  "linha_generica linha =
     (isin (u '' / '') linha \<and> \<not> isin (u ''Evento'') linha \<and> \<not> isin (u ''ROI'') linha
      \<and> 8211 \<notin> set linha \<and> 37 \<notin> set linha \<and> \<not> isin (u ''USD'') linha
      \<and> \<not> isin (u ''BRL'') linha \<and> \<not> isin (u ''Chance'') linha \<and> \<not> isin (u ''Aposta'') linha
      \<and> \<not> tem_odds_longas linha)"

definition esporte_valido :: "ustr \<Rightarrow> bool" where
  "esporte_valido possivel_esporte =
     (length possivel_esporte < 30 \<and> possivel_esporte \<noteq> [] \<and> \<not> tem_dois_digitos possivel_esporte)"

definition extrair_esporte :: "ustr list \<Rightarrow> dados \<Rightarrow> dados" where
  "extrair_esporte linhas d =
     (let idx = indice_times linhas d;
          d1 = (case find (\<lambda>(i, linha). perto_dos_times idx i \<and> linha_de_esporte linha)
                       (enumerate 0 linhas) of
                  None \<Rightarrow> d
                | Some (i, linha) \<Rightarrow>
                    d\<lparr>sport := Some (fst (partes_esporte linha)),
                      league := Some (snd (partes_esporte linha))\<rparr>)
      in if \<not> preenchido (sport d1) \<and> preenchido (teamA d1)
         then (case idx of
                 None \<Rightarrow> d1
               | Some k \<Rightarrow>
                   (case find (\<lambda>linha. linha_generica linha \<and> esporte_valido (fst (partes_esporte linha)))
                           (take 3 (drop (Suc k) linhas)) of
                      None \<Rightarrow> d1
                    | Some linha \<Rightarrow>
                        d1\<lparr>sport := Some (fst (partes_esporte linha)),
                           league := Some (snd (partes_esporte linha))\<rparr>))
         else d1)"

section \<open>The bet segmenter\<close>

text \<open>
  \<open>re.search(r'\b(w1|w2|...)\b', s)\<close> for a list of plain words: some word of the list stands
  in the text between two word boundaries.
\<close>

definition palavra_at :: "nat option \<Rightarrow> ustr \<Rightarrow> ustr \<Rightarrow> bool" where
  "palavra_at prev w s =
     (w \<noteq> [] \<and> startswith s w \<and> boundary prev (head s)
      \<and> boundary (Some (last w)) (head (drop (length w) s)))"

fun search_palavras :: "ustr list \<Rightarrow> nat option \<Rightarrow> ustr \<Rightarrow> bool" where
  "search_palavras ws prev [] = False"
| "search_palavras ws prev (c # cs) =
     (list_ex (\<lambda>w. palavra_at prev w (c # cs)) ws \<or> search_palavras ws (Some c) cs)"

definition palavras_tipo_curtas :: "ustr list" where
  "palavras_tipo_curtas =
     [u ''gol'', u ''time'', u ''canto'', u ''cantos'', u ''escanteio'', u ''escanteios'',
      u ''acima'', u ''abaixo'']"

definition palavras_tipo :: "ustr list" where
  "palavras_tipo =
     [u ''gol'', u ''time'', u ''canto'', u ''cantos'', u ''escanteio'', u ''escanteios'',
      u ''resultado'', u ''final'', u ''tempo'', u ''minuto'', u ''chute'', u ''corner'',
      u ''primeiro'', u ''segundo'', [49, 186], [50, 186], u ''over'', u ''under'', u ''acima'',
      u ''abaixo'', u ''casa'', u ''fora'', u ''empate'', u ''handicap'']"

text \<open>The state of the first inner loop, which completes the name of the house.\<close>

record fragmentos =
  fr_j :: nat
  fragmentos_casa :: "ustr list"
  linhas_usadas_fragmentos :: "nat list"
  linhas_parcialmente_usadas :: "(nat \<times> ustr) list"

definition eh_separador :: "ustr \<Rightarrow> bool" where
  "eh_separador proxima_linha =
     (proxima_linha = [] \<or> proxima_linha \<in> set [[9002], [9675], [9679], [62301], u ''new''])"

definition tem_dados_ou_simbolo :: "ustr \<Rightarrow> bool" where
  "tem_dados_ou_simbolo proxima_linha =
     (isin (u ''USD'') proxima_linha \<or> isin (u ''BRL'') proxima_linha \<or> 9679 \<in> set proxima_linha
      \<or> 9675 \<in> set proxima_linha \<or> 62301 \<in> set proxima_linha
      \<or> findall_decimal proxima_linha \<noteq> [])"

text \<open>\<open>re.match(r'^\([A-Z]{2}\)$', s)\<close>; the dollar also matches before a final newline.\<close>

definition eh_codigo_pais :: "ustr \<Rightarrow> bool" where
  "eh_codigo_pais s =
     (case s of
        a # b # c # d # rest \<Rightarrow>
          a = 40 \<and> ascii_upper b \<and> ascii_upper c \<and> d = 41 \<and> (rest = [] \<or> rest = [10])
      | _ \<Rightarrow> False)"

text \<open>
  One step of the first inner loop on the line \<open>j\<close>: the new state and whether the loop goes
  on. The counter \<open>n\<close> of \<open>completar_casa\<close> is the number of lines the loop may still look
  at, \<open>i + 4 - j\<close>.
\<close>

definition passo_fragmento :: "ustr list \<Rightarrow> fragmentos \<Rightarrow> fragmentos \<times> bool" where
  "passo_fragmento linhas st =
     (let j = fr_j st; proxima_linha = strip (linhas ! j)
      in if eh_separador proxima_linha then (st\<lparr>fr_j := j + 1\<rparr>, True)
         else if tem_dados_ou_simbolo proxima_linha then (st, False)
         else if length proxima_linha < 30
         then (if detectar_casa_apostas proxima_linha = None
               then (if eh_codigo_pais proxima_linha
                     then (st\<lparr>fr_j := j + 1,
                              fragmentos_casa := fragmentos_casa st @ [proxima_linha],
                              linhas_usadas_fragmentos := linhas_usadas_fragmentos st @ [j]\<rparr>, True)
                     else if length (split_ws proxima_linha) = 1 \<and> isupper (hd proxima_linha)
                     then (st\<lparr>fr_j := j + 1,
                              fragmentos_casa := fragmentos_casa st @ [proxima_linha],
                              linhas_usadas_fragmentos := linhas_usadas_fragmentos st @ [j]\<rparr>, True)
                     else if isupper (hd proxima_linha)
                     then (let palavras = split_ws proxima_linha
                           in if isupper (hd (hd palavras))
                                 \<and> \<not> search_palavras palavras_tipo_curtas None (lower (hd palavras))
                              then (st\<lparr>fr_j := j + 1,
                                       fragmentos_casa := fragmentos_casa st @ [hd palavras],
                                       linhas_usadas_fragmentos := linhas_usadas_fragmentos st @ [j],
                                       linhas_parcialmente_usadas :=
                                         (if join [32] (tl palavras) \<noteq> []
                                          then linhas_parcialmente_usadas st @ [(j, join [32] (tl palavras))]
                                          else linhas_parcialmente_usadas st)\<rparr>, True)
                              else (st, False))
                     else (st, False))
               else (st, False))
         else (st, False))"

fun completar_casa :: "nat \<Rightarrow> ustr list \<Rightarrow> fragmentos \<Rightarrow> fragmentos" where
  "completar_casa 0 linhas st = st"
| "completar_casa (Suc n) linhas st =
     (if fr_j st < length linhas
      then (case passo_fragmento linhas st of
              (st', True) \<Rightarrow> completar_casa n linhas st'
            | (st', False) \<Rightarrow> st')
      else st)"

text \<open>The special case of a fragmented \<open>Marjo Sports\<close>.\<close>

definition corrigir_marjo :: "ustr list \<Rightarrow> nat \<Rightarrow> nat \<Rightarrow> ustr \<Rightarrow> ustr" where
  "corrigir_marjo linhas i j casa_encontrada =
     (if startswith casa_encontrada (u ''Marjo'') \<and> \<not> isin (u ''Sports'') casa_encontrada
         \<and> list_ex (\<lambda>linha. isin (u ''Sports'') linha) (take (min j (length linhas) - i) (drop i linhas))
      then u ''Marjo Sports (BR)'' else casa_encontrada)"

text \<open>The first word of a house name, \<open>casa.split()[0]\<close>; every detected house has one.\<close>

definition casa_base :: "ustr \<Rightarrow> ustr" where
  "casa_base casa = (case split_ws casa of [] \<Rightarrow> [] | w # _ \<Rightarrow> w)"

text \<open>The state of the second inner loop, which collects the text of the leg.\<close>

record corpo =
  co_j :: nat
  co_texto :: ustr
  co_debug :: "ustr list"

definition secao_final :: "ustr \<Rightarrow> bool" where
  "secao_final proxima_linha =
     (isin (u ''Aposta total'') proxima_linha \<or> isin (u ''Mostrar'') proxima_linha
      \<or> isin (u ''Use sua'') proxima_linha \<or> isin (u ''Arredondar'') proxima_linha)"

definition tem_dados_financeiros :: "ustr \<Rightarrow> bool" where
  "tem_dados_financeiros proxima_linha =
     (isin (u ''USD'') proxima_linha \<or> isin (u ''BRL'') proxima_linha \<or> 9679 \<in> set proxima_linha
      \<or> 9675 \<in> set proxima_linha \<or> findall_decimal proxima_linha \<noteq> [])"

text \<open>The first test of a new house: the first word alone is detected and differs from the base of the current house.\<close>

definition nova_casa_na_palavra :: "ustr \<Rightarrow> ustr \<Rightarrow> bool" where
  "nova_casa_na_palavra casa_encontrada proxima_linha =
     (case split_ws (strip proxima_linha) of
        [] \<Rightarrow> False
      | primeira_palavra # _ \<Rightarrow>
          3 \<le> length primeira_palavra \<and> length primeira_palavra \<le> 15
          \<and> isupper (hd primeira_palavra) \<and> findall_decimal proxima_linha = []
          \<and> detectar_casa_apostas primeira_palavra \<noteq> None
          \<and> lower (casa_base casa_encontrada) \<noteq> lower primeira_palavra)"

definition nova_casa_na_linha :: "ustr \<Rightarrow> ustr \<Rightarrow> bool" where
  "nova_casa_na_linha casa_encontrada proxima_linha =
     (case detectar_casa_apostas proxima_linha of
        None \<Rightarrow> False
      | Some casa_na_proxima \<Rightarrow>
          lower (casa_base casa_encontrada) \<noteq> lower (casa_base casa_na_proxima))"

definition msg_nova_casa :: "ustr \<Rightarrow> ustr \<Rightarrow> ustr" where
  "msg_nova_casa casa_encontrada proxima_linha =
     u ''DEBUG: Detectada NOVA CASA! casaAtual='' @ casa_base casa_encontrada
     @ u '' novaDetectada='' @ casa_base proxima_linha @ u '' linha='' @ take 50 proxima_linha"

definition passo_corpo ::
  "ustr list \<Rightarrow> ustr \<Rightarrow> nat list \<Rightarrow> (nat \<times> ustr) list \<Rightarrow> corpo \<Rightarrow> corpo \<times> bool" where
  "passo_corpo linhas casa_encontrada usadas parciais st =
     (let j = co_j st; proxima_linha = linhas ! j
      in if j \<in> set usadas
         then (st\<lparr>co_j := j + 1,
                  co_texto := (case map_of parciais j of
                                     None \<Rightarrow> co_texto st
                                   | Some resto \<Rightarrow> co_texto st @ [32] @ resto)\<rparr>, True)
         else if nova_casa_na_palavra casa_encontrada proxima_linha
         then (st\<lparr>co_debug := co_debug st @ [msg_nova_casa casa_encontrada proxima_linha]\<rparr>, False)
         else if nova_casa_na_linha casa_encontrada proxima_linha then (st, False)
         else if secao_final proxima_linha then (st, False)
         else if tem_dados_financeiros proxima_linha
                 \<or> (search_palavras palavras_tipo None (lower proxima_linha)
                     \<and> length (split_ws proxima_linha) \<le> 6)
         then (st\<lparr>co_j := j + 1, co_texto := co_texto st @ [32] @ proxima_linha\<rparr>, True)
         else (st, False))"

fun coletar_corpo ::
  "nat \<Rightarrow> ustr list \<Rightarrow> ustr \<Rightarrow> nat list \<Rightarrow> (nat \<times> ustr) list \<Rightarrow> corpo \<Rightarrow> corpo" where
  "coletar_corpo 0 linhas casa usadas parciais st = st"
| "coletar_corpo (Suc n) linhas casa usadas parciais st =
     (if co_j st < length linhas
      then (case passo_corpo linhas casa usadas parciais st of
              (st', True) \<Rightarrow> coletar_corpo n linhas casa usadas parciais st'
            | (st', False) \<Rightarrow> st')
      else st)"

text \<open>
  One leg that starts at the line \<open>i\<close> with the detected house: the index after the leg, the
  record of the leg, and the debug lines written.
\<close>

definition segmentar_aposta :: "ustr list \<Rightarrow> nat \<Rightarrow> ustr \<Rightarrow> nat \<times> bet \<times> ustr list" where
  "segmentar_aposta linhas i casa =
     (let fr = completar_casa 3 linhas
                 \<lparr>fr_j = i + 1, fragmentos_casa = [], linhas_usadas_fragmentos = [],
                  linhas_parcialmente_usadas = []\<rparr>;
          casa1 = (if fragmentos_casa fr = [] then casa
                   else casa @ [32] @ join [32] (fragmentos_casa fr));
          casa_encontrada = corrigir_marjo linhas i (fr_j fr) casa1;
          co = coletar_corpo (i + 8 - fr_j fr) linhas casa_encontrada
                 (linhas_usadas_fragmentos fr) (linhas_parcialmente_usadas fr)
                 \<lparr>co_j = fr_j fr, co_texto = linhas ! i, co_debug = []\<rparr>
      in (co_j co, processar_aposta_completa (co_texto co) casa_encontrada, co_debug co))"

text \<open>A leg is accepted when it has a house and an odd.\<close>

definition aposta_aceita :: "bet \<Rightarrow> bool" where
  "aposta_aceita aposta = (preenchido (bet_house aposta) \<and> truthy (bet_odd aposta))"

text \<open>
  The loop over the lines of a page, from the line \<open>i\<close>: the accepted legs and the debug lines.
  Every leg ends after the line it starts at, so the number of lines bounds the number of steps;
  \<open>n\<close> counts them down.
\<close>

fun extrair_apostas :: "nat \<Rightarrow> ustr list \<Rightarrow> nat \<Rightarrow> bet list \<times> ustr list" where
  "extrair_apostas 0 linhas i = ([], [])"
| "extrair_apostas (Suc n) linhas i =
     (if i < length linhas
      then (case detectar_casa_apostas (linhas ! i) of
              None \<Rightarrow> extrair_apostas n linhas (i + 1)
            | Some casa \<Rightarrow>
                (case segmentar_aposta linhas i casa of
                   (j, aposta, dbg) \<Rightarrow>
                     (case extrair_apostas n linhas j of
                        (apostas, dbgs) \<Rightarrow>
                          ((if aposta_aceita aposta then aposta # apostas else apostas), dbg @ dbgs))))
      else ([], []))"

section \<open>The record assembler\<close>

definition linhas_da_pagina :: "ustr \<Rightarrow> ustr list" where
  "linhas_da_pagina texto =
     filter (\<lambda>linha. linha \<noteq> []) (map strip (split_on 10 (preprocessar_linhas_quebradas texto)))"

text \<open>\<open>dados['betN'].update(aposta)\<close> for the legs found, in their order.\<close>

definition mapear_apostas :: "bet list \<Rightarrow> dados \<Rightarrow> dados" where
  "mapear_apostas apostas_encontradas d =
     (let d1 = (if 1 \<le> length apostas_encontradas then d\<lparr>bet1 := apostas_encontradas ! 0\<rparr> else d);
          d2 = (if 2 \<le> length apostas_encontradas then d1\<lparr>bet2 := apostas_encontradas ! 1\<rparr> else d1)
      in if 3 \<le> length apostas_encontradas then d2\<lparr>bet3 := apostas_encontradas ! 2\<rparr> else d2)"

text \<open>One page: the record after it, how many legs were accepted on it, and the debug lines.\<close>

definition processar_pagina ::
  "(ustr \<Rightarrow> ustr option) \<Rightarrow> ustr \<Rightarrow> dados \<Rightarrow> dados \<times> nat \<times> ustr list" where
  "processar_pagina formatar texto d =
     (let linhas = linhas_da_pagina texto;
          d1 = d\<lparr>date := extrair_data formatar linhas (date d)\<rparr>;
          d2 = extrair_times linhas d1;
          d3 = extrair_esporte linhas d2;
          r = extrair_apostas (length linhas) linhas 0
      in (mapear_apostas (fst r) d3, length (fst r), snd r))"

text \<open>The test after a page that ends the scan.\<close>

definition dados_suficientes :: "dados \<Rightarrow> nat \<Rightarrow> bool" where
  "dados_suficientes d bets_detected =
     (preenchido (teamA d) \<and> preenchido (teamB d) \<and> preenchido (bet_house (bet1 d))
      \<and> preenchido (bet_house (bet2 d))
      \<and> (bets_detected < 3 \<or> preenchido (bet_house (bet3 d))))"

text \<open>
  What the decoder gives for a page: its text, nothing, or an exception with its message.
  A document is the list of its pages, or the exception that opening it raises.
\<close>

datatype pagina = Texto ustr | SemTexto | ErroPagina ustr

datatype documento = Paginas "pagina list" | ErroAbrir ustr

definition msg_erro :: "ustr \<Rightarrow> ustr" where
  "msg_erro e = u ''Erro ao processar PDF: '' @ e"

text \<open>
  The loop over the pages: the record and the lines written to the diagnostic stream. An
  exception ends the loop with the record as it stands.
\<close>

fun processar_paginas ::
  "(ustr \<Rightarrow> ustr option) \<Rightarrow> pagina list \<Rightarrow> dados \<Rightarrow> dados \<times> ustr list" where
  "processar_paginas formatar [] d = (d, [])"
| "processar_paginas formatar (SemTexto # resto) d = processar_paginas formatar resto d"
| "processar_paginas formatar (ErroPagina e # resto) d = (d, [msg_erro e])"
| "processar_paginas formatar (Texto texto # resto) d =
     (if texto = [] then processar_paginas formatar resto d
      else (case processar_pagina formatar texto d of
              (d', bets_detected, dbg) \<Rightarrow>
                if dados_suficientes d' bets_detected then (d', dbg)
                else (case processar_paginas formatar resto d' of
                        (d'', err) \<Rightarrow> (d'', dbg @ err))))"

definition extrair_dados_pdf :: "(ustr \<Rightarrow> ustr option) \<Rightarrow> documento \<Rightarrow> dados \<times> ustr list" where
  "extrair_dados_pdf formatar doc =
     (case doc of
        ErroAbrir e \<Rightarrow> (dados_iniciais, [msg_erro e])
      | Paginas paginas \<Rightarrow> processar_paginas formatar (take 2 paginas) dados_iniciais)"

section \<open>The program\<close>

text \<open>The value that \<open>json.dumps\<close> writes, as a tree.\<close>

datatype json = JNull | JStr ustr | JNum pyfloat | JObj "(string \<times> json) list"

definition json_str :: "ustr option \<Rightarrow> json" where
  "json_str x = (case x of None \<Rightarrow> JNull | Some s \<Rightarrow> JStr s)"

definition json_num :: "pyfloat option \<Rightarrow> json" where
  "json_num x = (case x of None \<Rightarrow> JNull | Some f \<Rightarrow> JNum f)"

definition json_bet :: "bet \<Rightarrow> json" where
  "json_bet b =
     JObj [(''house'', json_str (bet_house b)), (''odd'', json_num (bet_odd b)),
           (''type'', json_str (bet_type b)), (''stake'', json_num (bet_stake b)),
           (''profit'', json_num (bet_profit b))]"

definition json_dados :: "dados \<Rightarrow> json" where
  "json_dados d =
     JObj [(''date'', json_str (date d)), (''sport'', json_str (sport d)),
           (''league'', json_str (league d)), (''teamA'', json_str (teamA d)),
           (''teamB'', json_str (teamB d)), (''bet1'', json_bet (bet1 d)),
           (''bet2'', json_bet (bet2 d)), (''bet3'', json_bet (bet3 d)),
           (''profitPercentage'', json_num (profitPercentage d))]"

text \<open>The structure \<open>dados_vazio\<close> of the handler in \<open>main\<close>: no \<open>bet3\<close>.\<close>

definition dados_vazio :: json where
  "dados_vazio =
     JObj [(''date'', JNull), (''sport'', JNull), (''league'', JNull), (''teamA'', JNull),
           (''teamB'', JNull), (''bet1'', json_bet bet_vazio), (''bet2'', json_bet bet_vazio),
           (''profitPercentage'', JNull)]"

record saida =
  stderr :: "ustr list"
  stdout :: "json list"
  exit_status :: nat

text \<open>
  \<open>main\<close>, for the argument vector and the decoder. \<open>extrair_dados_pdf\<close> catches every
  exception itself and returns a record, so the handler of \<open>main\<close>, which would print
  \<open>dados_vazio\<close> and exit with status 1, is never entered.
\<close>

definition main :: "(ustr \<Rightarrow> ustr option) \<Rightarrow> (ustr \<Rightarrow> documento) \<Rightarrow> ustr list \<Rightarrow> saida" where
  "main formatar abrir argv =
     (if length argv \<noteq> 2
      then \<lparr>stderr = [u ''Uso: python parse_pdf.py <caminho_do_pdf>''], stdout = [], exit_status = 1\<rparr>
      else (case extrair_dados_pdf formatar (abrir (argv ! 1)) of
              (dados, err) \<Rightarrow> \<lparr>stderr = err, stdout = [json_dados dados], exit_status = 0\<rparr>))"

section \<open>The specification's wording of the rules\<close>

text \<open>
  The specification states the odd and the fallback profit as rules over the decimal numbers of
  a text. They are written down here from its words, to be compared with the loops of the source.
  The descriptive part is the text before the first bullet glyph, or else before the first
  currency token, or else the whole text.
\<close>

definition in_range :: "pyfloat \<Rightarrow> bool" where
  "in_range v = (fle (fint 1) v \<and> fle v (fint 50))"

definition descriptive_part :: "ustr \<Rightarrow> ustr" where
  "descriptive_part texto =
     (case search_simbolo texto of
        Some i \<Rightarrow> take i texto
      | None \<Rightarrow> (case search_moeda texto of Some j \<Rightarrow> take j texto | None \<Rightarrow> texto))"

text \<open>
  Scanning from the end, the first value within \<open>[1.0, 50.0]\<close>; if none qualifies, the last
  decimal number found.
\<close>

definition spec_odd :: "ustr \<Rightarrow> pyfloat option" where
  "spec_odd texto =
     (let nums = map float_of (findall_decimal (descriptive_part texto))
      in case find in_range (rev nums) of
           Some v \<Rightarrow> Some v
         | None \<Rightarrow> (if nums = [] then None else Some (last nums)))"

text \<open>
  Scanning all decimal numbers of the text from the end, the first one that is at least
  \<open>0.01\<close> away from both the stake and the odd and is less than 1000.
\<close>

definition at_least_001 :: "pyfloat \<Rightarrow> pyfloat option \<Rightarrow> bool" where
  "at_least_001 num x =
     (case x of None \<Rightarrow> True | Some v \<Rightarrow> fle (fdec 1 2) (fabs (fsub num v)))"

definition spec_fallback_profit :: "ustr \<Rightarrow> pyfloat option \<Rightarrow> pyfloat option \<Rightarrow> pyfloat option" where
  "spec_fallback_profit texto stake oddv =
     find (\<lambda>num. at_least_001 num stake \<and> at_least_001 num oddv \<and> flt num (fint 1000))
       (rev (map float_of (findall_decimal texto)))"

section \<open>Example texts\<close>

definition texto_kto :: ustr where
  "texto_kto = u ''KTO (BR) Vit'' @ [243] @ u ''ria '' @ [9679] @ u '' 100.00 USD 18.50''"

definition texto_pinnacle :: ustr where
  "texto_pinnacle = u ''Pinnacle Mais de 2.5 gols '' @ [9679] @ u '' 50.00 USD 9.25''"

definition texto_handicap :: ustr where
  "texto_handicap = u ''Handicap 1.75 Casa 1.65''"

definition texto_proximos :: ustr where
  "texto_proximos = u ''1.50 1.505''"

section \<open>Invariant of the decimal scanner\<close>

text \<open>What the scanner has read of a number so far starts with a digit.\<close>

definition acc_ok :: "ustr \<Rightarrow> bool" where
  "acc_ok a = (a \<noteq> [] \<and> isdigit (last a))"

definition st_ok :: "dstate \<Rightarrow> bool" where
  "st_ok st = (case st of Idle \<Rightarrow> True | IntPart a \<Rightarrow> acc_ok a | Dot a \<Rightarrow> acc_ok a | Frac a \<Rightarrow> acc_ok a)"

section \<open>Continuable pairs of lines\<close>

text \<open>
  Two adjacent lines that the reassembler would merge: the second is a country suffix, or the
  first carries odds in USD and the second is a continuation.
\<close>

definition par_continuavel :: "ustr \<Rightarrow> ustr \<Rightarrow> bool" where
  "par_continuavel a b =
     (strip b \<in> set sufixos_pais \<or> (tem_odds_usd (strip a) \<and> eh_continuacao (strip b)))"

fun sem_pares_continuaveis :: "ustr list \<Rightarrow> bool" where
  "sem_pares_continuaveis [] = True"
| "sem_pares_continuaveis [a] = True"
| "sem_pares_continuaveis (a # b # rest) =
     (\<not> par_continuavel a b \<and> sem_pares_continuaveis (b # rest))"

text \<open>A logical line: not empty, with no white space at either end and no line break.\<close>

definition linha_logica :: "ustr \<Rightarrow> bool" where
  "linha_logica l = (l \<noteq> [] \<and> \<not> isspace (hd l) \<and> \<not> isspace (last l) \<and> 10 \<notin> set l)"

definition texto_cloudbet :: ustr where
  "texto_cloudbet = u ''CloudBet'' @ [10] @ u ''(BR)'' @ [10, 10] @ u '' Acima 2.5 ''"

section \<open>Evaluation\<close>

text \<open>
  Concrete inputs are evaluated by rewriting with the definitions. The bound value of a
  \<open>let\<close> is computed before its body is looked at.
\<close>

lemma replicate_numeral_Cons: "replicate (numeral k) x = x # replicate (pred_numeral k) x"
  by (simp add: numeral_eq_Suc)

lemmas text_eval = u_def isspace_def isdigit_def str_isdigit_def isupper_def ascii_upper_def
  ascii_alpha_def lower_cp_def lower_def isword_def boundary_def head_def strip_def split_ws_def
  isin_def remove_all_def collapse_ws_def

lemmas arith_eval = round_double_def nbits.simps round_half_even_def reduce.simps fint_def
  fdec_def scaled_def round_scaled_def fneg_def fabs_def fle_def Let_def

lemmas float_eval = arith_eval float_of_def truthy_def

lemmas str_eval = ndigits.simps digits_of.simps dec_exponent_def dec_value_def
  repr_candidate_def repr_format_def repr_pos_def float_str_def upt_rec replicate_numeral_Cons

lemmas regex_eval = findall_decimal_def is_simbolo_def moeda_at_def stake_at_def is_numero_def
  is_dash_def codigo_at_def sub_codigo_def word_at_def sub_word_def

lemmas extractor_eval = parte_antes_simbolo_def extrair_odd_def extrair_stake_def
  profit_apos_stake_def differs_def extrair_profit_def palavras_chave_tipo_def
  palavra_anterior_eh_chave_def perto_def limpar_tipo_def casas_conhecidas_def remover_casa_def
  extrair_tipo_def

section \<open>The decimal numbers of a text\<close>

lemma space_not_digit: "isspace c \<Longrightarrow> \<not> isdigit c"
  by (auto simp: isspace_def isdigit_def)

lemma space_not_dot: "isspace c \<Longrightarrow> c \<noteq> 46"
  by (auto simp: isspace_def)

lemma scan_idle_spaces: "list_all isspace w \<Longrightarrow> scan_decimal Idle w = []"
  by (induction w) (auto simp: space_not_digit)

lemma scan_spaces: "list_all isspace w \<Longrightarrow> scan_decimal st w = scan_decimal st []"
proof (cases w)
  case Nil
  then show ?thesis by simp
next
  case (Cons c cs)
  assume "list_all isspace w"
  with Cons have c: "isspace c" and cs: "list_all isspace cs" by simp_all
  show ?thesis
    using Cons space_not_digit [OF c] space_not_dot [OF c] scan_idle_spaces [OF cs]
    by (cases st) simp_all
qed

lemma scan_append_spaces:
  "list_all isspace w \<Longrightarrow> scan_decimal st (x @ w) = scan_decimal st x"
proof (induction x arbitrary: st)
  case Nil
  then show ?case using scan_spaces by simp
next
  case (Cons c x)
  then show ?case by (cases st) simp_all
qed

lemma scan_dropWhile_space:
  "scan_decimal Idle (dropWhile isspace s) = scan_decimal Idle s"
  by (induction s) (auto simp: space_not_digit)

lemma rstrip_decomp: "\<exists>w. list_all isspace w \<and> s = rev (dropWhile isspace (rev s)) @ w"
proof -
  have "rev s = takeWhile isspace (rev s) @ dropWhile isspace (rev s)" by simp
  then have "s = rev (dropWhile isspace (rev s)) @ rev (takeWhile isspace (rev s))"
    by (metis rev_append rev_rev_ident)
  moreover have "list_all isspace (rev (takeWhile isspace (rev s)))"
    by (simp add: list_all_iff) (meson set_takeWhileD)
  ultimately show ?thesis by blast
qed

text \<open>Stripping a text changes none of its decimal numbers.\<close>

lemma findall_decimal_strip: "findall_decimal (strip s) = findall_decimal s"
proof -
  obtain w where w: "list_all isspace w"
    and eq: "dropWhile isspace s = rev (dropWhile isspace (rev (dropWhile isspace s))) @ w"
    using rstrip_decomp by blast
  have "scan_decimal Idle (strip s) = scan_decimal Idle (strip s @ w)"
    using scan_append_spaces [OF w] by simp
  also have "strip s @ w = dropWhile isspace s"
    using eq by (simp add: strip_def)
  finally show ?thesis
    by (simp add: findall_decimal_def scan_dropWhile_space)
qed

text \<open>Every decimal number found starts with a digit, so it has no sign.\<close>

lemma scan_decimal_digit_first:
  "st_ok st \<Longrightarrow> x \<in> set (scan_decimal st s) \<Longrightarrow> x \<noteq> [] \<and> isdigit (hd x)"
proof (induction s arbitrary: st)
  case Nil
  then show ?case by (cases st) (auto simp: st_ok_def acc_ok_def hd_rev)
next
  case (Cons c s)
  show ?case
  proof (cases st)
    case Idle
    with Cons.prems Cons.IH [of "if isdigit c then IntPart [c] else Idle"] show ?thesis
      by (auto simp: st_ok_def acc_ok_def split: if_splits)
  next
    case (IntPart a)
    with Cons.prems
      Cons.IH [of "if isdigit c then IntPart (c # a) else if c = 46 then Dot a else Idle"]
    show ?thesis by (auto simp: st_ok_def acc_ok_def split: if_splits)
  next
    case (Dot a)
    with Cons.prems Cons.IH [of "if isdigit c then Frac (c # 46 # a) else Idle"] show ?thesis
      by (auto simp: st_ok_def acc_ok_def split: if_splits)
  next
    case (Frac a)
    with Cons.prems Cons.IH [of "Frac (c # a)"] Cons.IH [of Idle] show ?thesis
      by (auto simp: st_ok_def acc_ok_def hd_rev split: if_splits)
  qed
qed

lemma reduce_nonneg:
  "0 \<le> m \<Longrightarrow> reduce m e = Fin 0 0 \<or> (\<exists>m' e'. reduce m e = Fin m' e' \<and> 0 < m')"
proof (induction m e rule: reduce.induct)
  case (1 m e)
  show ?case
  proof (cases "m = 0")
    case True
    then show ?thesis by (simp add: reduce.simps)
  next
    case False
    show ?thesis
    proof (cases "even m")
      case True
      have "0 \<le> m div 2" using "1.prems" by simp
      with "1.IH" [OF False True] have
        "reduce (m div 2) (e + 1) = Fin 0 0 \<or> (\<exists>m' e'. reduce (m div 2) (e + 1) = Fin m' e' \<and> 0 < m')"
        by simp
      moreover have "reduce m e = reduce (m div 2) (e + 1)"
        using False True by (subst reduce.simps) simp
      ultimately show ?thesis by simp
    next
      case odd: False
      have "reduce m e = Fin m e" using False odd by (subst reduce.simps) simp
      moreover have "0 < m" using False "1.prems" by simp
      ultimately show ?thesis by simp
    qed
  qed
qed

lemma fint_0: "fint 0 = Fin 0 0"
  by (simp add: fint_def reduce.simps)

lemma fle_zero_reduce: "0 \<le> m \<Longrightarrow> fle (Fin 0 0) (reduce m e)"
  using reduce_nonneg [of m e] by (auto simp: fle_def scaled_def)

lemma round_double_nonneg: "fle (fint 0) (round_double a b)"
  by (simp add: round_double_def Let_def fint_0 fle_zero_reduce) (simp add: fle_def)

lemma float_of_decimal_nonneg:
  assumes "x \<in> set (findall_decimal s)"
  shows "fle (fint 0) (float_of x)"
proof -
  have "x \<noteq> [] \<and> isdigit (hd x)"
    using assms scan_decimal_digit_first [of Idle x s] by (simp add: findall_decimal_def st_ok_def)
  then have "head x \<noteq> Some 45"
    by (cases x) (auto simp: head_def isdigit_def)
  then show ?thesis
    by (simp add: float_of_def Let_def round_double_nonneg)
qed

section \<open>The field extractor: house\<close>

text \<open>
  Claim C10. For every accumulated leg text and every house name, the record returned by the
  field extractor has as its house exactly the house name passed in.
\<close>

theorem processar_house_is_argument:
  "bet_house (processar_aposta_completa texto_aposta casa_aposta) = Some casa_aposta"
  by (simp add: processar_aposta_completa_def Let_def)

section \<open>The field extractor: odd\<close>

lemma odd_loop_find: "odd_loop xs = find in_range (map float_of xs)"
  by (induction xs) (simp_all add: Let_def in_range_def)

lemma find_in_range_truthy: "find in_range xs = Some v \<Longrightarrow> truthy (Some v)"
proof -
  assume "find in_range xs = Some v"
  then have "in_range v" by (auto simp: find_Some_iff)
  then show ?thesis
    by (auto simp: in_range_def truthy_def fle_def fint_def reduce.simps scaled_def)
qed

lemma parte_antes_decimal:
  "findall_decimal (parte_antes_simbolo t) = findall_decimal (descriptive_part t)"
  by (simp add: parte_antes_simbolo_def descriptive_part_def findall_decimal_strip split: option.splits)

lemma extrair_odd_spec: "extrair_odd t = spec_odd t"
proof (cases "findall_decimal (descriptive_part t) = []")
  case True
  then show ?thesis by (simp add: extrair_odd_def spec_odd_def parte_antes_decimal)
next
  case False
  let ?ns = "findall_decimal (descriptive_part t)"
  show ?thesis
  proof (cases "find in_range (map float_of (rev ?ns))")
    case None
    then show ?thesis using False
      by (simp add: extrair_odd_def spec_odd_def parte_antes_decimal odd_loop_find truthy_def rev_map last_map)
  next
    case (Some v)
    then show ?thesis using False find_in_range_truthy [OF Some]
      by (simp add: extrair_odd_def spec_odd_def parte_antes_decimal odd_loop_find rev_map)
  qed
qed

lemma odd_handicap: "extrair_odd texto_handicap = Some (float_of (u ''1.65''))"
  by (simp add: texto_handicap_def text_eval float_eval regex_eval extractor_eval split del: if_split cong: let_weak_cong)

text \<open>
  Claim C5. For every leg text the extracted odd is found among the decimal numbers of the
  descriptive part by scanning from the end and taking the first value within \<open>[1.0, 50.0]\<close>,
  or the last decimal number when none is in range; for the text \<open>Handicap 1.75 Casa 1.65\<close>
  it is the float read from \<open>1.65\<close>.
\<close>

theorem odd_is_last_in_range_or_last:
  "bet_odd (processar_aposta_completa texto_aposta casa_aposta) = spec_odd texto_aposta
   \<and> bet_odd (processar_aposta_completa texto_handicap casa_aposta) = Some (float_of (u ''1.65''))"
  by (simp add: processar_aposta_completa_def Let_def extrair_odd_spec [symmetric] odd_handicap)

section \<open>The field extractor: stake and profit\<close>

lemma profit_fallback_mem:
  "profit_fallback st od xs = Some p \<Longrightarrow> \<exists>x\<in>set xs. p = float_of x"
  by (induction xs) (auto simp: Let_def split: if_splits)

lemma profit_apos_stake_nonneg:
  "profit_apos_stake t st = Some p \<Longrightarrow> fle (fint 0) p"
  by (auto simp: profit_apos_stake_def Let_def split: option.splits if_splits
           intro!: float_of_decimal_nonneg [OF last_in_set])

lemma extrair_profit_nonneg:
  assumes "extrair_profit t st od = Some p"
  shows "fle (fint 0) p"
proof (cases "profit_fallback st od (rev (findall_decimal t))")
  case None
  with assms have "profit_apos_stake t st = Some p"
    by (simp add: extrair_profit_def Let_def split: if_splits)
  then show ?thesis by (rule profit_apos_stake_nonneg)
next
  case (Some q)
  show ?thesis
  proof (cases "truthy (profit_apos_stake t st)")
    case True
    with assms have "profit_apos_stake t st = Some p"
      by (simp add: extrair_profit_def Let_def)
    then show ?thesis by (rule profit_apos_stake_nonneg)
  next
    case False
    with assms Some have "q = p" by (simp add: extrair_profit_def Let_def)
    with Some profit_fallback_mem obtain x where "x \<in> set (findall_decimal t)" "p = float_of x"
      by fastforce
    then show ?thesis by (simp add: float_of_decimal_nonneg)
  qed
qed

lemma dec_100: "fdec 10000 2 = Fin 25 2"
  by (simp add: arith_eval split del: if_split cong: let_weak_cong)

lemma dec_1850: "fdec 1850 2 = Fin 37 (- 1)"
  by (simp add: arith_eval split del: if_split cong: let_weak_cong)

lemma dec_150: "fdec 150 2 = Fin 3 (- 1)"
  by (simp add: arith_eval split del: if_split cong: let_weak_cong)

lemma dec_25: "fdec 25 1 = Fin 5 (- 1)"
  by (simp add: arith_eval split del: if_split cong: let_weak_cong)

lemma str_100: "float_str (Fin 25 2) = u ''100.0''"
  by (simp add: text_eval float_eval str_eval split del: if_split cong: let_weak_cong)

lemma str_50: "float_str (Fin 25 1) = u ''50.0''"
  by (simp add: text_eval float_eval str_eval split del: if_split cong: let_weak_cong)

lemma first_stake_kto: "first_stake texto_kto = Some (u ''100.00'')"
  by (simp add: texto_kto_def text_eval regex_eval Let_def split del: if_split cong: let_weak_cong)

lemma stake_kto: "extrair_stake texto_kto = Some (Fin 25 2)"
  by (simp add: extrair_stake_def first_stake_kto) (simp add: text_eval float_eval)

lemma odd_kto: "extrair_odd texto_kto = None"
  by (simp add: texto_kto_def text_eval float_eval regex_eval extractor_eval split del: if_split cong: let_weak_cong)

lemma apos_stake_kto: "profit_apos_stake texto_kto (Some (Fin 25 2)) = Some (Fin 37 (- 1))"
  by (simp add: profit_apos_stake_def str_100)
     (simp add: texto_kto_def text_eval float_eval regex_eval split del: if_split cong: let_weak_cong)

lemma profit_kto: "extrair_profit texto_kto (Some (Fin 25 2)) None = Some (Fin 37 (- 1))"
  by (simp add: extrair_profit_def apos_stake_kto truthy_def)

text \<open>
  Claim C7. On the text \<open>KTO (BR) Vitoria \<bullet> 100.00 USD 18.50\<close> (with o acute) the stake is 100.00, the
  number of the first number-and-currency pattern, and the profit is 18.50, the last decimal
  number after the place of the stake.
\<close>

theorem kto_stake_and_profit:
  "bet_stake (processar_aposta_completa texto_kto casa_aposta) = Some (fdec 10000 2)
   \<and> bet_profit (processar_aposta_completa texto_kto casa_aposta) = Some (fdec 1850 2)
   \<and> first_stake texto_kto = Some (u ''100.00'')
   \<and> profit_apos_stake texto_kto (Some (fdec 10000 2)) = Some (fdec 1850 2)"
  by (simp add: processar_aposta_completa_def Let_def stake_kto odd_kto profit_kto
        first_stake_kto apos_stake_kto dec_100 dec_1850)

text \<open>
  Claim C9. Whenever the field extractor returns a profit, that profit is not negative.
\<close>

theorem profit_never_negative:
  "bet_profit (processar_aposta_completa texto_aposta casa_aposta) = Some p \<Longrightarrow> fle (fint 0) p"
  by (simp add: processar_aposta_completa_def Let_def extrair_profit_nonneg)

theorem profit_never_negative_witness:
  "bet_profit (processar_aposta_completa texto_kto (u ''KTO (BR)'')) = Some (fdec 1850 2)
   \<and> fle (fint 0) (fdec 1850 2)"
proof -
  have h: "bet_profit (processar_aposta_completa texto_kto (u ''KTO (BR)'')) = Some (fdec 1850 2)"
    by (simp add: processar_aposta_completa_def Let_def stake_kto odd_kto profit_kto dec_1850)
  show ?thesis using h profit_never_negative [OF h] by simp
qed

lemma profit_fallback_find:
  "profit_fallback st od xs
     = find (\<lambda>num. differs num st \<and> differs num od \<and> flt num (fint 1000)) (map float_of xs)"
  by (induction xs) (simp_all add: Let_def)

lemma stake_proximos: "extrair_stake texto_proximos = None"
  by (simp add: texto_proximos_def text_eval regex_eval extractor_eval Let_def split del: if_split cong: let_weak_cong)

lemma numeros_proximos: "findall_decimal texto_proximos = [u ''1.50'', u ''1.505'']"
  by (simp add: texto_proximos_def text_eval regex_eval)

lemma float_150: "float_of (u ''1.50'') = Fin 3 (- 1)"
  by (simp add: text_eval float_eval split del: if_split cong: let_weak_cong)

lemma float_1505: "float_of (u ''1.505'') = Fin 1694479359798149 (- 50)"
  by (simp add: text_eval float_eval split del: if_split cong: let_weak_cong)

lemma odd_proximos: "extrair_odd texto_proximos = Some (Fin 1694479359798149 (- 50))"
  by (simp add: extrair_odd_def parte_antes_simbolo_def)
     (simp add: texto_proximos_def text_eval regex_eval float_eval split del: if_split cong: let_weak_cong)

lemma profit_proximos:
  "extrair_profit texto_proximos None (Some (Fin 1694479359798149 (- 50)))
     = Some (Fin 3 (- 1))"
  by (simp add: extrair_profit_def profit_apos_stake_def numeros_proximos truthy_def Let_def
        differs_def float_150 float_1505 fint_def reduce.simps scaled_def split del: if_split)

lemma processar_proximos:
  "processar_aposta_completa texto_proximos casa
     = \<lparr>bet_house = Some casa, bet_odd = Some (Fin 1694479359798149 (- 50)),
        bet_type = extrair_tipo texto_proximos casa
                     (Some (Fin 1694479359798149 (- 50))) None (Some (Fin 3 (- 1))),
        bet_stake = None, bet_profit = Some (Fin 3 (- 1))\<rparr>"
  by (simp add: processar_aposta_completa_def Let_def stake_proximos odd_proximos profit_proximos)

lemma spec_fallback_proximos:
  "spec_fallback_profit texto_proximos None (Some (Fin 1694479359798149 (- 50)))
     = None"
  by (simp add: spec_fallback_profit_def numeros_proximos at_least_001_def float_150 float_1505
        arith_eval split del: if_split cong: let_weak_cong)

text \<open>
  Claim C6, as the source has it. When the search after the stake yields no profit (there is no
  stake, the stake is zero, its text is not found again, or no decimal number follows it), the
  profit is the first decimal number of the text, scanning from the end, that is not equal to
  the stake, not equal to the odd, and less than 1000. The comparison is exact: no tolerance
  of 0.01 is applied.
\<close>

theorem fallback_profit_first_unequal:
  "profit_apos_stake texto_aposta (extrair_stake texto_aposta) = None \<Longrightarrow>
   bet_profit (processar_aposta_completa texto_aposta casa_aposta)
     = find (\<lambda>num. differs num (extrair_stake texto_aposta)
                 \<and> differs num (extrair_odd texto_aposta) \<and> flt num (fint 1000))
         (rev (map float_of (findall_decimal texto_aposta)))"
  by (simp add: processar_aposta_completa_def Let_def extrair_profit_def truthy_def
        profit_fallback_find rev_map split: option.splits)

theorem fallback_profit_first_unequal_witness:
  "profit_apos_stake texto_proximos (extrair_stake texto_proximos) = None
   \<and> bet_profit (processar_aposta_completa texto_proximos (u ''X'')) = Some (fdec 150 2)"
proof -
  have h: "profit_apos_stake texto_proximos (extrair_stake texto_proximos) = None"
    by (simp add: stake_proximos profit_apos_stake_def)
  show ?thesis
    using h fallback_profit_first_unequal [OF h, of "u ''X''"]
    by (simp add: stake_proximos odd_proximos numeros_proximos differs_def float_150 float_1505
          dec_150 fint_def reduce.simps scaled_def split del: if_split)
qed

text \<open>
  The claim as the specification words it, with a tolerance of 0.01, fails on the text
  \<open>1.50 1.505\<close>: the odd is 1.505, and 1.50 is less than 0.01 away from it, yet the source
  returns 1.50 as the profit.
\<close>

theorem fallback_profit_tolerance_counterexample:
  "profit_apos_stake texto_proximos (extrair_stake texto_proximos) = None
   \<and> bet_profit (processar_aposta_completa texto_proximos (u ''X''))
       \<noteq> spec_fallback_profit texto_proximos
            (bet_stake (processar_aposta_completa texto_proximos (u ''X'')))
            (bet_odd (processar_aposta_completa texto_proximos (u ''X'')))"
  by (simp add: processar_proximos stake_proximos profit_apos_stake_def spec_fallback_proximos)

section \<open>The field extractor: bet type\<close>

lemma stake_pinnacle: "extrair_stake texto_pinnacle = Some (Fin 25 1)"
  by (simp add: texto_pinnacle_def text_eval float_eval regex_eval extractor_eval split del: if_split cong: let_weak_cong)

lemma odd_pinnacle: "extrair_odd texto_pinnacle = Some (Fin 5 (- 1))"
  by (simp add: texto_pinnacle_def text_eval float_eval regex_eval extractor_eval split del: if_split cong: let_weak_cong)

lemma apos_stake_pinnacle: "profit_apos_stake texto_pinnacle (Some (Fin 25 1)) = Some (Fin 37 (- 2))"
  by (simp add: profit_apos_stake_def str_50)
     (simp add: texto_pinnacle_def text_eval float_eval regex_eval split del: if_split cong: let_weak_cong)

lemma profit_pinnacle:
  "extrair_profit texto_pinnacle (Some (Fin 25 1)) (Some (Fin 5 (- 1))) = Some (Fin 37 (- 2))"
  by (simp add: extrair_profit_def apos_stake_pinnacle truthy_def)

lemma tipo_pinnacle:
  "extrair_tipo texto_pinnacle (u ''Pinnacle'') (Some (Fin 5 (- 1))) (Some (Fin 25 1)) (Some (Fin 37 (- 2)))
     = Some (u ''Mais de gols'')"
  by (simp add: texto_pinnacle_def text_eval float_eval regex_eval extractor_eval split del: if_split cong: let_weak_cong)

lemma processar_pinnacle:
  "processar_aposta_completa texto_pinnacle (u ''Pinnacle'')
     = \<lparr>bet_house = Some (u ''Pinnacle''), bet_odd = Some (Fin 5 (- 1)),
        bet_type = Some (u ''Mais de gols''), bet_stake = Some (Fin 25 1),
        bet_profit = Some (Fin 37 (- 2))\<rparr>"
  by (simp add: processar_aposta_completa_def Let_def stake_pinnacle odd_pinnacle profit_pinnacle
        tipo_pinnacle)

text \<open>
  Claim C4, as the source has it. On the text \<open>Pinnacle Mais de 2.5 gols \<bullet> 50.00 USD 9.25\<close>
  with house \<open>Pinnacle\<close> the bet type is \<open>Mais de gols\<close>. The tokens \<open>Pinnacle\<close>,
  \<open>50.00\<close>, \<open>USD\<close> and \<open>9.25\<close> are excluded, and so is \<open>2.5\<close>: it is the only decimal
  number of the descriptive part, hence the odd, and the token before it, \<open>de\<close>, is not a
  keyword of a bet type.
\<close>

theorem pinnacle_type_drops_the_odd:
  "bet_type (processar_aposta_completa texto_pinnacle (u ''Pinnacle'')) = Some (u ''Mais de gols'')
   \<and> bet_odd (processar_aposta_completa texto_pinnacle (u ''Pinnacle'')) = Some (fdec 25 1)"
  unfolding dec_25 by (simp add: processar_pinnacle)

text \<open>The bet type is not \<open>Mais de 2.5 gols\<close>, as the claim has it.\<close>

theorem pinnacle_type_counterexample:
  "bet_type (processar_aposta_completa texto_pinnacle (u ''Pinnacle'')) \<noteq> Some (u ''Mais de 2.5 gols'')"
  by (simp add: processar_pinnacle) (simp add: u_def)

section \<open>The line reassembler is idempotent on its finished output\<close>

lemma strip_Nil [simp]: "strip [] = []"
  by (simp add: strip_def)

lemma dropWhile_hd: "dropWhile P s \<noteq> [] \<Longrightarrow> \<not> P (hd (dropWhile P s))"
  by (simp add: hd_dropWhile)

lemma strip_ends:
  assumes "strip s \<noteq> []"
  shows "\<not> isspace (hd (strip s)) \<and> \<not> isspace (last (strip s))"
proof -
  let ?d = "dropWhile isspace s"
  let ?r = "dropWhile isspace (rev ?d)"
  have r: "?r \<noteq> []" using assms by (simp add: strip_def)
  have d: "?d \<noteq> []"
  proof
    assume a: "?d = []"
    have "?r = []" unfolding a by simp
    with r show False by simp
  qed
  have "\<not> isspace (hd ?r)" using r by (rule dropWhile_hd)
  then have l: "\<not> isspace (last (strip s))" using r by (simp add: strip_def last_rev)
  have nh: "\<not> isspace (hd ?d)" using d by (rule dropWhile_hd)
  have ld: "last (rev ?d) = hd ?d" using d by (simp add: last_rev)
  have "rev ?d = takeWhile isspace (rev ?d) @ ?r" by simp
  then have "last (rev ?d) = last ?r" using r by (metis last_appendR)
  then have "last ?r = hd ?d" using ld by simp
  then have "hd (strip s) = hd ?d" using r by (simp add: strip_def hd_rev)
  with nh l show ?thesis by simp
qed

lemma dropWhile_same: "xs \<noteq> [] \<Longrightarrow> \<not> P (hd xs) \<Longrightarrow> dropWhile P xs = xs"
  by (cases xs) simp_all

lemma strip_id:
  assumes "s \<noteq> []" "\<not> isspace (hd s)" "\<not> isspace (last s)"
  shows "strip s = s"
proof -
  have 1: "dropWhile isspace s = s" using assms by (simp add: dropWhile_same)
  have "rev s \<noteq> []" "\<not> isspace (hd (rev s))" using assms by (simp_all add: hd_rev)
  then have "dropWhile isspace (rev s) = rev s" by (rule dropWhile_same)
  with 1 show ?thesis by (simp add: strip_def)
qed

lemma strip_subset: "set (strip s) \<subseteq> set s"
proof -
  have "set (strip s) \<subseteq> set (dropWhile isspace s)"
    by (auto simp: strip_def dest: set_dropWhileD)
  also have "\<dots> \<subseteq> set s" by (auto dest: set_dropWhileD)
  finally show ?thesis .
qed

lemma strip_linha_logica: "10 \<notin> set s \<Longrightarrow> strip s \<noteq> [] \<Longrightarrow> linha_logica (strip s)"
  using strip_ends [of s] strip_subset [of s] by (auto simp: linha_logica_def)

lemma linha_logica_strip: "linha_logica l \<Longrightarrow> strip l = l"
  by (simp add: linha_logica_def strip_id)

lemma linha_logica_join:
  assumes "linha_logica a" "linha_logica b"
  shows "linha_logica (a @ 32 # b)"
  using assms by (auto simp: linha_logica_def hd_append)

lemma split_on_acc_no_sep:
  "sep \<notin> set acc \<Longrightarrow> \<forall>l\<in>set (split_on_acc sep acc s). sep \<notin> set l"
proof (induction s arbitrary: acc)
  case Nil
  then show ?case by simp
next
  case (Cons a s)
  show ?case using Cons.IH [of "[]"] Cons.IH [of "a # acc"] Cons.prems by auto
qed

lemma split_on_no_sep: "l \<in> set (split_on sep s) \<Longrightarrow> sep \<notin> set l"
  using split_on_acc_no_sep [of sep "[]" s] by (simp add: split_on_def)

lemma split_on_acc_append:
  "sep \<notin> set x \<Longrightarrow> split_on_acc sep acc (x @ s) = split_on_acc sep (rev x @ acc) s"
  by (induction x arbitrary: acc) auto

lemma split_on_join:
  "ls \<noteq> [] \<Longrightarrow> \<forall>l\<in>set ls. sep \<notin> set l \<Longrightarrow> split_on sep (join [sep] ls) = ls"
proof (induction ls)
  case Nil
  then show ?case by simp
next
  case (Cons x ls)
  then have x: "sep \<notin> set x" by simp
  show ?case
  proof (cases ls)
    case Nil
    then show ?thesis using split_on_acc_append [OF x, of "[]" "[]"] by (simp add: split_on_def)
  next
    case (Cons y ys)
    with Cons.IH Cons.prems have "split_on sep (join [sep] (y # ys)) = y # ys" by simp
    moreover have "split_on sep (x @ sep # join [sep] (y # ys))
                     = x # split_on sep (join [sep] (y # ys))"
      using split_on_acc_append [OF x, of "[]" "sep # join [sep] (y # ys)"]
      by (simp add: split_on_def)
    ultimately show ?thesis using Cons by simp
  qed
qed

lemma juntar_linhas_logicas:
  "\<forall>l\<in>set ls. 10 \<notin> set l \<Longrightarrow> \<forall>l\<in>set (juntar_linhas ls). linha_logica l"
proof (induction ls rule: juntar_linhas.induct)
  case 1
  then show ?case by simp
next
  case (2 l)
  then show ?case by (simp add: strip_linha_logica)
next
  case (3 l p rest)
  have l: "strip l \<noteq> [] \<Longrightarrow> linha_logica (strip l)" using 3 by (simp add: strip_linha_logica)
  have p: "strip p \<noteq> [] \<Longrightarrow> linha_logica (strip p)" using 3 by (simp add: strip_linha_logica)
  have suf: "strip p \<in> set sufixos_pais \<Longrightarrow> strip p \<noteq> []"
    by (auto simp: sufixos_pais_def u_def)
  have cont: "eh_continuacao (strip p) \<Longrightarrow> strip p \<noteq> []"
    by (simp add: eh_continuacao_def)
  show ?case using 3 l p suf cont by (auto simp: linha_logica_join)
qed

lemma juntar_linhas_id:
  "\<forall>l\<in>set ls. linha_logica l \<Longrightarrow> sem_pares_continuaveis ls \<Longrightarrow> juntar_linhas ls = ls"
proof (induction ls rule: juntar_linhas.induct)
  case 1
  then show ?case by simp
next
  case (2 l)
  then show ?case by (simp add: linha_logica_strip) (simp add: linha_logica_def)
next
  case (3 l p rest)
  have l: "strip l = l" "l \<noteq> []" using 3 by (simp_all add: linha_logica_strip linha_logica_def)
  have n: "\<not> par_continuavel l p" using 3 by simp
  then have n1: "strip p \<notin> set sufixos_pais"
    and n2: "\<not> (tem_odds_usd (strip l) \<and> eh_continuacao (strip p))"
    by (simp_all add: par_continuavel_def)
  have "juntar_linhas (p # rest) = p # rest" using 3 l n1 n2 by simp
  then show ?case using l n1 n2 by simp
qed

text \<open>
  Claim C8. When the output of the line reassembler holds no two adjacent lines that the
  country-suffix rule or the currency-continuation rule would merge, reassembling it again
  changes nothing.
\<close>

theorem reassemble_idempotent:
  assumes "sem_pares_continuaveis (split_on 10 (preprocessar_linhas_quebradas texto))"
  shows "preprocessar_linhas_quebradas (preprocessar_linhas_quebradas texto)
           = preprocessar_linhas_quebradas texto"
proof -
  let ?ls = "juntar_linhas (split_on 10 texto)"
  have logic: "\<forall>l\<in>set ?ls. linha_logica l"
    using juntar_linhas_logicas [of "split_on 10 texto"] split_on_no_sep by blast
  show ?thesis
  proof (cases "?ls = []")
    case True
    then show ?thesis by (simp add: preprocessar_linhas_quebradas_def split_on_def)
  next
    case False
    have "\<forall>l\<in>set ?ls. 10 \<notin> set l" using logic by (simp add: linha_logica_def)
    with False have rt: "split_on 10 (join [10] ?ls) = ?ls" by (rule split_on_join)
    then have "sem_pares_continuaveis ?ls"
      using assms by (simp add: preprocessar_linhas_quebradas_def)
    then have "juntar_linhas ?ls = ?ls" using logic juntar_linhas_id by blast
    then show ?thesis using rt by (simp add: preprocessar_linhas_quebradas_def)
  qed
qed

lemmas reassembler_eval = split_on_def sufixos_pais_def tem_odds_usd_def int_usd_at_def
  tem_odds_significativos_def palavras_de_secao_def eh_continuacao_def par_continuavel_def
  findall_decimal_def

lemma preprocessar_cloudbet:
  "preprocessar_linhas_quebradas texto_cloudbet = u ''CloudBet (BR)'' @ [10] @ u ''Acima 2.5''"
  by (simp add: preprocessar_linhas_quebradas_def texto_cloudbet_def text_eval reassembler_eval
        split del: if_split cong: let_weak_cong)

theorem reassemble_idempotent_witness:
  "sem_pares_continuaveis (split_on 10 (preprocessar_linhas_quebradas texto_cloudbet))
   \<and> preprocessar_linhas_quebradas (preprocessar_linhas_quebradas texto_cloudbet)
       = u ''CloudBet (BR)'' @ [10] @ u ''Acima 2.5''"
proof -
  have h: "sem_pares_continuaveis (split_on 10 (preprocessar_linhas_quebradas texto_cloudbet))"
    by (simp add: preprocessar_cloudbet)
       (simp add: text_eval reassembler_eval split del: if_split cong: let_weak_cong)
  show ?thesis using h reassemble_idempotent [OF h] by (simp add: preprocessar_cloudbet)
qed

section \<open>The program on a document that cannot be opened\<close>

text \<open>
  Claim C2, evaluated where opening the document raises an exception with message \<open>e\<close>, as
  it does for a missing, unreadable or corrupt file. The claim asks for a diagnostic line, the
  record without \<open>bet3\<close> on standard output and exit status 1. The source writes the
  diagnostic line of \<open>extrair_dados_pdf\<close>, which catches the exception itself, then the
  initial record with all nine fields, \<open>bet3\<close> among them, and ends with status 0: the
  handler of \<open>main\<close> that would do as the claim says is not reached.
\<close>

theorem main_missing_document:
  "main formatar (\<lambda>caminho. ErroAbrir e) [prog, caminho_pdf]
     = \<lparr>stderr = [msg_erro e], stdout = [json_dados dados_iniciais], exit_status = 0\<rparr>
   \<and> json_dados dados_iniciais \<noteq> dados_vazio"
  by (simp add: main_def extrair_dados_pdf_def json_dados_def dados_vazio_def)

end
